theory Spec2Isabelle
  imports Main
begin

section \<open>JSON-RPC 2.0 over HTTP: the server dispatcher (http.go) and the client invoker\<close>

subsection \<open>Data model\<close>

text \<open>
  A JSON document after the syntax check of \<^verbatim>\<open>encoding/json\<close>. Numbers keep their
  literal text; object members keep the order of the document.
\<close>

datatype json =
    JNull
  | JBool bool
  | JNumber string
  | JString string
  | JArray "json list"
  | JObject "(string \<times> json) list"

text \<open>\<^verbatim>\<open>ErrorObject{Code, Message, Data}\<close>; \<open>Data\<close> only ever receives strings in http.go.\<close>

record ErrorObject =
  Code :: int
  Message :: string
  Data :: string

text \<open>
  The part of \<^verbatim>\<open>*http.Request\<close> the handler touches. \<open>Body\<close> is the outcome of
  \<^verbatim>\<open>ioutil.ReadAll(r.Body)\<close>: \<open>Inl\<close> the text of the read error (only
  \<^verbatim>\<open>err.Error()\<close> is used of it), \<open>Inr\<close> the bytes. The other fields are what the
  transport validators look at.
\<close>

record Request =
  Body :: "string + string"
  Proto :: string
  HTTPMethod :: string
  Header :: "(string \<times> string) list"

text \<open>
  \<^verbatim>\<open>ResponseObject\<close>, with the fields http.go reads and writes. \<open>headers\<close> is the
  Go map of dynamic headers, as the list of entries in the order the \<^verbatim>\<open>range\<close> loop
  visits them (Go leaves that order open, so every theorem quantifies over the list).
\<close>

record ResponseObject =
  Jsonrpc :: string
  Error :: "ErrorObject option"
  Result :: "json option"
  ID :: "json option"
  notification :: bool
  statusCode :: nat
  headers :: "(string \<times> string) list"
  r :: "Request option"

text \<open>
  Modelled from the spec: the declaration of \<^verbatim>\<open>RequestObject\<close> is missing. The spec gives
  \<open>{protocolVersion: string, method: string, params: opaque bytes|null,
  id: string|number|null}\<close>, with an absent or null id meaning a notification; http.go
  compares \<^verbatim>\<open>reqObj.ID\<close> with nil, so the id is a raw JSON value behind a pointer.
\<close>

record RequestObject =
  req_Jsonrpc :: string
  req_Method :: string
  req_Params :: "json option"
  req_ID :: "json option"

record ParametersObject =
  p_id :: "json option"
  p_method :: string
  p_params :: "json option"
  p_r :: Request

text \<open>
  \<^verbatim>\<open>http.ResponseWriter\<close> as a recorder of what the handler did to it: the header map
  (keys in canonical form), the status of the first \<^verbatim>\<open>WriteHeader\<close>, the bytes written.
  \<open>broken\<close> says that writes to the connection fail.
\<close>

record ResponseWriter =
  header :: "string \<rightharpoonup> string"
  status :: "nat option"
  body :: string
  broken :: bool

text \<open>
  \<^verbatim>\<open>Service\<close>: the static headers (entries in iteration order), the request and response
  hooks and the method registry \<^verbatim>\<open>Call\<close>. \<open>'e\<close> is the type of the errors a hook returns.
\<close>

record 'e Service =
  s_headers :: "(string \<times> string) list"
  req :: "Request \<Rightarrow> string \<Rightarrow> 'e option"
  resp :: "Request option \<Rightarrow> string \<Rightarrow> 'e option"
  Call :: "string \<Rightarrow> ParametersObject \<Rightarrow> json option \<times> ErrorObject option"

text \<open>
  What http.go uses and does not define. Of the standard library: \<open>canon\<close>
  (the canonical form \<^verbatim>\<open>Header.Set\<close> gives a key), \<open>scan\<close> (the syntax check and
  parse of \<^verbatim>\<open>json.Unmarshal\<close>, \<open>Inl\<close> the text of the syntax error), \<open>type_error_text\<close>
  (\<^verbatim>\<open>Error()\<close> of an \<^verbatim>\<open>UnmarshalTypeError\<close> with that Value and Field) and
  \<open>EqualFold\<close>. Of the package: the transport validators and the id coercion (methods
  with a pointer receiver: they return their verdict and the response object as they
  leave it), \<open>Marshal\<close>, \<open>getHTTPCodeFromHookError\<close>, the default dynamic headers and the
  error constants.
\<close>

record 'e env =
  canon :: "string \<Rightarrow> string"
  scan :: "string \<Rightarrow> string + json"
  type_error_text :: "string \<Rightarrow> string \<Rightarrow> string"
  EqualFold :: "string \<Rightarrow> string \<Rightarrow> bool"
  ValidateHTTPProtocolVersion :: "ResponseObject \<Rightarrow> Request \<Rightarrow> bool \<times> ResponseObject"
  ValidateHTTPRequestMethod :: "ResponseObject \<Rightarrow> Request \<Rightarrow> bool \<times> ResponseObject"
  ValidateHTTPRequestHeaders :: "ResponseObject \<Rightarrow> Request \<Rightarrow> bool \<times> ResponseObject"
  ConvertIDtoString :: "json option \<Rightarrow> string \<times> ErrorObject option"
  Marshal :: "ResponseObject \<Rightarrow> string"
  getHTTPCodeFromHookError :: "'e \<Rightarrow> nat"
  default_headers :: "(string \<times> string) list"
  ParseErrorCode :: int
  ParseErrorMessage :: string
  NotImplementedCode :: int
  NotImplementedMessage :: string
  InvalidMethodCode :: int
  InvalidMethodMessage :: string
  InvalidRequestCode :: int
  InvalidRequestMessage :: string
  InvalidVersionData :: string

subsection \<open>The response writer\<close>

definition StatusOK :: nat where "StatusOK = 200"
definition StatusNoContent :: nat where "StatusNoContent = 204"
definition StatusBadRequest :: nat where "StatusBadRequest = 400"
definition StatusInternalServerError :: nat where "StatusInternalServerError = 500"

text \<open>\<^verbatim>\<open>w.Header().Set(k, v)\<close>: the key is canonicalised, the old value replaced.\<close>

definition Header_Set :: "'e env \<Rightarrow> ResponseWriter \<Rightarrow> string \<Rightarrow> string \<Rightarrow> ResponseWriter" where
  "Header_Set E w k v = w\<lparr>header := (header w)(canon E k \<mapsto> v)\<rparr>"

text \<open>\<^verbatim>\<open>w.WriteHeader(code)\<close>: the first call fixes the status, later calls are ignored.\<close>

definition WriteHeader :: "ResponseWriter \<Rightarrow> nat \<Rightarrow> ResponseWriter" where
  "WriteHeader w code = (case status w of None \<Rightarrow> w\<lparr>status := Some code\<rparr> | Some _ \<Rightarrow> w)"

text \<open>
  \<^verbatim>\<open>w.Write(b)\<close>: sends status 200 first when no status was written; returns the writer
  and whether the write succeeded.
\<close>

definition Write :: "ResponseWriter \<Rightarrow> string \<Rightarrow> ResponseWriter \<times> bool" where
  "Write w b =
     (let w' = WriteHeader w StatusOK
      in if broken w' then (w', False) else (w'\<lparr>body := body w' @ b\<rparr>, True))"

text \<open>The two \<^verbatim>\<open>range\<close> loops of WriteRespose over a header map.\<close>

fun set_headers :: "'e env \<Rightarrow> (string \<times> string) list \<Rightarrow> ResponseWriter \<Rightarrow> ResponseWriter" where
  "set_headers E [] w = w"
| "set_headers E ((h, v) # hs) w = set_headers E hs (Header_Set E w h v)"

subsection \<open>WriteRespose\<close>

definition WriteRespose :: "'e env \<Rightarrow> 'e Service \<Rightarrow> ResponseWriter \<Rightarrow> ResponseObject \<Rightarrow> ResponseWriter" where
  "WriteRespose E s w respObj =
     (let w1 = set_headers E (s_headers s) w;
          w2 = set_headers E (headers respObj) w1
      in if notification respObj then WriteHeader w2 StatusNoContent
         else
           (let bytes = Marshal E respObj
            in case resp s (r respObj) bytes of
                 Some err \<Rightarrow> WriteHeader w2 (getHTTPCodeFromHookError E err)
               | None \<Rightarrow>
                   (let w3 = WriteHeader w2 (statusCode respObj)
                    in case Write w3 bytes of
                         (w4, False) \<Rightarrow> WriteHeader w4 StatusInternalServerError
                       | (w4, True) \<Rightarrow> w4)))"

subsection \<open>Decoding the request body\<close>

text \<open>
  The errors \<^verbatim>\<open>json.Unmarshal\<close> returns: a syntax error with its text, or an
  \<^verbatim>\<open>UnmarshalTypeError\<close> with the description of the JSON value (\<open>Value\<close>) and the
  name of the field it was meant for (\<open>Field\<close>, empty at the top level).
\<close>

datatype unmarshal_error =
    SyntaxError string
  | UnmarshalTypeError (Value: string) (Field: string)

fun unmarshal_Error :: "'e env \<Rightarrow> unmarshal_error \<Rightarrow> string" where
  "unmarshal_Error E (SyntaxError msg) = msg"
| "unmarshal_Error E (UnmarshalTypeError v f) = type_error_text E v f"

text \<open>How \<^verbatim>\<open>encoding/json\<close> describes a JSON value in an \<^verbatim>\<open>UnmarshalTypeError\<close>.\<close>

fun json_Value :: "json \<Rightarrow> string" where
  "json_Value JNull = ''null''"
| "json_Value (JBool _) = ''bool''"
| "json_Value (JNumber _) = ''number''"
| "json_Value (JString _) = ''string''"
| "json_Value (JArray _) = ''array''"
| "json_Value (JObject _) = ''object''"

definition request_fields :: "string list" where
  "request_fields = [''jsonrpc'', ''method'', ''params'', ''id'']"

text \<open>The field a key of the document decodes into: an exact match first, then a match up to case.\<close>

definition find_field :: "'e env \<Rightarrow> string \<Rightarrow> string option" where
  "find_field E k =
     (if k \<in> set request_fields then Some k
      else find (\<lambda>f. EqualFold E f k) request_fields)"

text \<open>The decoder keeps the first error it meets and goes on decoding.\<close>

definition saveError :: "unmarshal_error option \<Rightarrow> unmarshal_error \<Rightarrow> unmarshal_error option" where
  "saveError saved err = (case saved of None \<Rightarrow> Some err | Some e \<Rightarrow> Some e)"

text \<open>
  One member of the top-level object. A string field takes a JSON string, is left alone by
  null, and reports a type error for any other value; the raw fields take any value, and a
  null id leaves the pointer nil.
\<close>

definition decode_member ::
  "'e env \<Rightarrow> RequestObject \<times> unmarshal_error option \<Rightarrow> string \<times> json
     \<Rightarrow> RequestObject \<times> unmarshal_error option" where
  "decode_member E st kv =
     (let reqObj = fst st; saved = snd st; k = fst kv; v = snd kv
      in case find_field E k of
           None \<Rightarrow> (reqObj, saved)
         | Some f \<Rightarrow>
             if f = ''jsonrpc'' then
               (case v of
                  JString x \<Rightarrow> (reqObj\<lparr>req_Jsonrpc := x\<rparr>, saved)
                | JNull \<Rightarrow> (reqObj, saved)
                | _ \<Rightarrow> (reqObj, saveError saved (UnmarshalTypeError (json_Value v) f)))
             else if f = ''method'' then
               (case v of
                  JString x \<Rightarrow> (reqObj\<lparr>req_Method := x\<rparr>, saved)
                | JNull \<Rightarrow> (reqObj, saved)
                | _ \<Rightarrow> (reqObj, saveError saved (UnmarshalTypeError (json_Value v) f)))
             else if f = ''params'' then (reqObj\<lparr>req_Params := Some v\<rparr>, saved)
             else (reqObj\<lparr>req_ID := (if v = JNull then None else Some v)\<rparr>, saved))"

definition new_RequestObject :: RequestObject where
  "new_RequestObject =
     \<lparr>req_Jsonrpc = [], req_Method = [], req_Params = None, req_ID = None\<rparr>"

text \<open>
  \<^verbatim>\<open>json.Unmarshal(req, &reqObj)\<close> with \<^verbatim>\<open>reqObj := new(RequestObject)\<close>: \<open>Inl\<close> the error,
  \<open>Inr\<close> the pointer \<^verbatim>\<open>reqObj\<close> afterwards (\<open>None\<close> is nil: a top-level null resets the
  pointer). A top-level value that is neither an object nor null is a type error at the
  top level.
\<close>

definition Unmarshal :: "'e env \<Rightarrow> string \<Rightarrow> unmarshal_error + RequestObject option" where
  "Unmarshal E data =
     (case scan E data of
        Inl msg \<Rightarrow> Inl (SyntaxError msg)
      | Inr JNull \<Rightarrow> Inr None
      | Inr (JObject ms) \<Rightarrow>
          (case foldl (decode_member E) (new_RequestObject, None) ms of
             (reqObj, None) \<Rightarrow> Inr (Some reqObj)
           | (reqObj, Some err) \<Rightarrow> Inl err)
      | Inr v \<Rightarrow> Inl (UnmarshalTypeError (json_Value v) []))"

subsection \<open>ServeHTTP\<close>

text \<open>
  Modelled from the spec: \<^verbatim>\<open>DefaultResponseObject\<close> is missing. The spec's response
  envelope has the fixed protocol version "2.0", no result, error or id yet, is not a
  notification, and is delivered with HTTP 200 unless a stage says otherwise; \<open>r\<close> is
  set by ServeHTTP.
\<close>

definition DefaultResponseObject :: "'e env \<Rightarrow> ResponseObject" where
  "DefaultResponseObject E =
     \<lparr>Jsonrpc = ''2.0'', Error = None, Result = None, ID = None, notification = False,
      statusCode = StatusOK, headers = default_headers E, r = None\<rparr>"

text \<open>
  Modelled from the spec: \<^verbatim>\<open>ValidateJSONRPCVersionNumber\<close> is missing. The spec: validate
  the JSON-RPC version field against the literal "2.0"; a mismatch is an
  \<open>InvalidRequestError\<close>, answered with HTTP 200 (the status is left as it is). The
  text put into \<open>Data\<close> is not given: \<open>InvalidVersionData\<close>.
\<close>

definition ValidateJSONRPCVersionNumber :: "'e env \<Rightarrow> ResponseObject \<Rightarrow> string \<Rightarrow> bool \<times> ResponseObject" where
  "ValidateJSONRPCVersionNumber E respObj jsonrpc =
     (if jsonrpc \<noteq> ''2.0''
      then (False, respObj\<lparr>Error := Some \<lparr>Code = InvalidRequestCode E,
                Message = InvalidRequestMessage E, Data = InvalidVersionData E\<rparr>\<rparr>)
      else (True, respObj))"

text \<open>
  The outcome of the handler: it panics (a nil \<^verbatim>\<open>reqObj\<close> is dereferenced), or it
  returns, leaving the writer and the calls it made to the method registry.
\<close>

datatype outcome =
    Panicked
  | Done ResponseWriter "(string \<times> ParametersObject) list"

text \<open>The stages of ServeHTTP after a successful decode (from the version check on).\<close>

definition dispatch ::
  "'e env \<Rightarrow> 'e Service \<Rightarrow> ResponseWriter \<Rightarrow> Request \<Rightarrow> ResponseObject \<Rightarrow> RequestObject \<Rightarrow> outcome" where
  "dispatch E s w rq respObj reqObj =
     (case ValidateJSONRPCVersionNumber E respObj (req_Jsonrpc reqObj) of
        (False, respObj1) \<Rightarrow> Done (WriteRespose E s w respObj1) []
      | (True, respObj1) \<Rightarrow>
          (case snd (ConvertIDtoString E (req_ID reqObj)) of
             Some errObj \<Rightarrow> Done (WriteRespose E s w (respObj1\<lparr>Error := Some errObj\<rparr>)) []
           | None \<Rightarrow>
               (let respObj2 =
                      (if req_ID reqObj \<noteq> None then respObj1\<lparr>ID := req_ID reqObj\<rparr>
                       else respObj1\<lparr>notification := True\<rparr>);
                    paramsObj = \<lparr>p_id = req_ID reqObj, p_method = req_Method reqObj,
                                 p_params = req_Params reqObj, p_r = rq\<rparr>;
                    res = Call s (req_Method reqObj) paramsObj;
                    respObj3 = respObj2\<lparr>Result := fst res\<rparr>
                in case snd res of
                     Some errObj \<Rightarrow>
                       Done (WriteRespose E s w (respObj3\<lparr>Error := Some errObj\<rparr>))
                         [(req_Method reqObj, paramsObj)]
                   | None \<Rightarrow>
                       Done (WriteRespose E s w respObj3) [(req_Method reqObj, paramsObj)])))"

text \<open>The decode stage: the classification of a decode error, or on to \<open>dispatch\<close>.\<close>

definition decode_stage ::
  "'e env \<Rightarrow> 'e Service \<Rightarrow> ResponseWriter \<Rightarrow> Request \<Rightarrow> ResponseObject \<Rightarrow> string \<Rightarrow> outcome" where
  "decode_stage E s w rq respObj data =
     (case Unmarshal E data of
        Inl err \<Rightarrow>
          (let respObj1 = respObj\<lparr>Error := Some \<lparr>Code = ParseErrorCode E,
                 Message = ParseErrorMessage E, Data = unmarshal_Error E err\<rparr>\<rparr>
           in case err of
                UnmarshalTypeError val fld \<Rightarrow>
                  if val = ''array'' then
                    Done (WriteRespose E s w (respObj1\<lparr>Error := Some \<lparr>Code = NotImplementedCode E,
                       Message = NotImplementedMessage E,
                       Data = ''batch requests not supported''\<rparr>\<rparr>)) []
                  else if fld = ''method'' then
                    Done (WriteRespose E s w (respObj1\<lparr>Error := Some \<lparr>Code = InvalidMethodCode E,
                       Message = InvalidMethodMessage E,
                       Data = ''method data type must be string''\<rparr>\<rparr>)) []
                  else Done (WriteRespose E s w respObj1) []
              | SyntaxError msg \<Rightarrow> Done (WriteRespose E s w respObj1) [])
      | Inr None \<Rightarrow> Panicked
      | Inr (Some reqObj) \<Rightarrow> dispatch E s w rq respObj reqObj)"

definition ServeHTTP :: "'e env \<Rightarrow> 'e Service \<Rightarrow> ResponseWriter \<Rightarrow> Request \<Rightarrow> outcome" where
  "ServeHTTP E s w rq =
     (let respObj = (DefaultResponseObject E)\<lparr>r := Some rq\<rparr>
      in case Body rq of
           Inl err \<Rightarrow>
             Done (WriteRespose E s w (respObj\<lparr>statusCode := StatusBadRequest,
                Error := Some \<lparr>Code = ParseErrorCode E, Message = ParseErrorMessage E,
                               Data = err\<rparr>\<rparr>)) []
         | Inr data \<Rightarrow>
             (case req s rq data of
                Some err \<Rightarrow> Done (WriteHeader w (getHTTPCodeFromHookError E err)) []
              | None \<Rightarrow>
                  (case ValidateHTTPProtocolVersion E respObj rq of
                     (False, respObj1) \<Rightarrow> Done (WriteRespose E s w respObj1) []
                   | (True, respObj1) \<Rightarrow>
                       (case ValidateHTTPRequestMethod E respObj1 rq of
                          (False, respObj2) \<Rightarrow> Done (WriteRespose E s w respObj2) []
                        | (True, respObj2) \<Rightarrow>
                            (case ValidateHTTPRequestHeaders E respObj2 rq of
                               (False, respObj3) \<Rightarrow> Done (WriteRespose E s w respObj3) []
                             | (True, respObj3) \<Rightarrow> decode_stage E s w rq respObj3 data)))))"

subsection \<open>Reaching the decode stage\<close>

text \<open>
  The request passes stages 1 to 5 of ServeHTTP: the body is read, the request hook
  accepts it, and the three transport validators accept the request; \<open>respObj\<close> is the
  response object as the last validator leaves it.
\<close>

definition reaches_decode ::
  "'e env \<Rightarrow> 'e Service \<Rightarrow> Request \<Rightarrow> string \<Rightarrow> ResponseObject \<Rightarrow> bool" where
  "reaches_decode E s rq data respObj =
     (Body rq = Inr data \<and> req s rq data = None \<and>
      (let v1 = ValidateHTTPProtocolVersion E ((DefaultResponseObject E)\<lparr>r := Some rq\<rparr>) rq;
           v2 = ValidateHTTPRequestMethod E (snd v1) rq;
           v3 = ValidateHTTPRequestHeaders E (snd v2) rq
       in fst v1 \<and> fst v2 \<and> fst v3 \<and> snd v3 = respObj))"

section \<open>The client invoker\<close>

text \<open>The request and response envelopes of package client: the id is a string there.\<close>

record c_RequestObject =
  c_Jsonrpc :: string
  c_Method :: string
  c_Params :: string
  c_ID :: string

record c_ResponseObject =
  rs_Jsonrpc :: string
  rs_Result :: string
  rs_Error :: "ErrorObject option"
  rs_ID :: string

record Config =
  uri :: string
  c_headers :: "(string \<times> string) list"
  disableCompression :: bool
  socketPath :: "string option"
  timeout :: nat

text \<open>The \<^verbatim>\<open>*http.Request\<close> the client builds, and the response it gets back.\<close>

record ClientRequest =
  cr_Method :: string
  cr_URL :: string
  cr_Body :: string
  cr_Header :: "string \<rightharpoonup> string"

record 'x HTTPResponse =
  StatusCode :: nat
  resp_Body :: "'x + string"

text \<open>
  Modelled from the spec: \<^verbatim>\<open>NewInternalError\<close> and its setters \<^verbatim>\<open>SetHTTPStatusCodes\<close>,
  \<^verbatim>\<open>SetRPCIDs\<close> and \<^verbatim>\<open>SetProtocolVersions\<close> are missing. The spec says an
  \<open>InternalError\<close> wraps the transport or decode error, or carries both the observed
  and the expected value of a status code, an id or a protocol version. An error of
  \<^verbatim>\<open>Call\<close> is such an internal error (its prefix, the wrapped error, what it carries) or
  the error object of the response.
\<close>

datatype detail =
    NoDetail
  | HTTPStatusCodes nat nat
  | RPCIDs string string
  | ProtocolVersions string string

datatype 'x call_error =
    InternalError string "'x option" detail
  | ResponseError ErrorObject

definition NewInternalError :: "string \<Rightarrow> 'x option \<Rightarrow> 'x call_error" where
  "NewInternalError prefix err = InternalError prefix err NoDetail"

fun SetHTTPStatusCodes :: "'x call_error \<Rightarrow> nat \<Rightarrow> nat \<Rightarrow> 'x call_error" where
  "SetHTTPStatusCodes (InternalError p err _) observed expected =
     InternalError p err (HTTPStatusCodes observed expected)"
| "SetHTTPStatusCodes e _ _ = e"

fun SetRPCIDs :: "'x call_error \<Rightarrow> string \<Rightarrow> string \<Rightarrow> 'x call_error" where
  "SetRPCIDs (InternalError p err _) observed expected =
     InternalError p err (RPCIDs observed expected)"
| "SetRPCIDs e _ _ = e"

fun SetProtocolVersions :: "'x call_error \<Rightarrow> string \<Rightarrow> string \<Rightarrow> 'x call_error" where
  "SetProtocolVersions (InternalError p err _) observed expected =
     InternalError p err (ProtocolVersions observed expected)"
| "SetProtocolVersions e _ _ = e"

text \<open>
  What \<^verbatim>\<open>Call\<close> uses and does not define, for one call: the id \<^verbatim>\<open>genUUID()\<close> draws, the
  outcome of \<^verbatim>\<open>json.Marshal\<close> of the request, the error of \<^verbatim>\<open>http.NewRequest\<close> for
  a URI (if any), the round trip \<^verbatim>\<open>ctxhttp.Do\<close> under the timeout, \<^verbatim>\<open>json.Unmarshal\<close>
  of the response body, \<^verbatim>\<open>strings.EqualFold\<close>, the canonical form of a header key and
  the constant \<^verbatim>\<open>ErrorPrefix\<close>. \<open>'x\<close> is the type of Go errors.
\<close>

record 'x client_env =
  genUUID :: string
  marshal_request :: "c_RequestObject \<Rightarrow> 'x + string"
  new_request_error :: "string \<Rightarrow> 'x option"
  Do :: "nat \<Rightarrow> ClientRequest \<Rightarrow> 'x + 'x HTTPResponse"
  unmarshal_response :: "string \<Rightarrow> 'x + c_ResponseObject"
  c_EqualFold :: "string \<Rightarrow> string \<Rightarrow> bool"
  c_canon :: "string \<Rightarrow> string"
  ErrorPrefix :: string

text \<open>
  What a call does to the outside, in order: a request sent, the response body read,
  a body handed to the JSON decoder, the response body closed.
\<close>

datatype event =
    Sent ClientRequest
  | ReadAll
  | Decoded string
  | Closed

definition getRequestObject :: "'x client_env \<Rightarrow> string \<Rightarrow> string \<Rightarrow> c_RequestObject" where
  "getRequestObject C method params =
     \<lparr>c_Jsonrpc = ''2.0'', c_Method = method, c_Params = params, c_ID = genUUID C\<rparr>"

definition cr_Header_Set :: "'x client_env \<Rightarrow> ClientRequest \<Rightarrow> string \<Rightarrow> string \<Rightarrow> ClientRequest" where
  "cr_Header_Set C rq k v = rq\<lparr>cr_Header := (cr_Header rq)(c_canon C k \<mapsto> v)\<rparr>"

fun cr_set_headers :: "'x client_env \<Rightarrow> (string \<times> string) list \<Rightarrow> ClientRequest \<Rightarrow> ClientRequest" where
  "cr_set_headers C [] rq = rq"
| "cr_set_headers C ((k, v) # hs) rq = cr_set_headers C hs (cr_Header_Set C rq k v)"

text \<open>The POST request with the configured, compression and loopback headers.\<close>

definition build_request :: "'x client_env \<Rightarrow> Config \<Rightarrow> string \<Rightarrow> ClientRequest" where
  "build_request C c reqData =
     (let rq0 = \<lparr>cr_Method = ''POST'', cr_URL = uri c, cr_Body = reqData,
                  cr_Header = Map.empty\<rparr>;
          rq1 = cr_set_headers C (c_headers c) rq0;
          rq2 = (if \<not> disableCompression c
                 then cr_Header_Set C rq1 ''Content-Encoding'' ''gzip'' else rq1);
          rq3 = (if socketPath c \<noteq> None
                 then cr_Header_Set C (cr_Header_Set C rq2 ''X-Real-IP'' ''127.0.0.1'')
                        ''X-Client-IP'' ''127.0.0.1''
                 else rq2)
      in rq3)"

text \<open>The checks of \<^verbatim>\<open>Call\<close> on a decoded response envelope.\<close>

definition check_response ::
  "'x client_env \<Rightarrow> c_RequestObject \<Rightarrow> c_ResponseObject \<Rightarrow> 'x call_error + string" where
  "check_response C reqObj respObj =
     (if \<not> c_EqualFold C (c_ID reqObj) (rs_ID respObj) then
        Inl (SetRPCIDs (NewInternalError (ErrorPrefix C) None) (rs_ID respObj) (c_ID reqObj))
      else if \<not> c_EqualFold C (c_Jsonrpc reqObj) (rs_Jsonrpc respObj) then
        Inl (SetProtocolVersions (NewInternalError (ErrorPrefix C) None)
               (rs_Jsonrpc respObj) (c_Jsonrpc reqObj))
      else
        (case rs_Error respObj of
           Some e \<Rightarrow> Inl (ResponseError e)
         | None \<Rightarrow> Inr (rs_Result respObj)))"

text \<open>\<^verbatim>\<open>Call\<close> of package client: the result or the error, and what it did on the way.\<close>

definition client_Call ::
  "'x client_env \<Rightarrow> Config \<Rightarrow> string \<Rightarrow> string \<Rightarrow> ('x call_error + string) \<times> event list" where
  "client_Call C c method params =
     (let reqObj = getRequestObject C method params
      in case marshal_request C reqObj of
           Inl err \<Rightarrow> (Inl (NewInternalError (ErrorPrefix C) (Some err)), [])
         | Inr reqData \<Rightarrow>
             (case new_request_error C (uri c) of
                Some err \<Rightarrow> (Inl (NewInternalError (ErrorPrefix C) (Some err)), [])
              | None \<Rightarrow>
                  (let rq = build_request C c reqData
                   in case Do C (timeout c) rq of
                        Inl err \<Rightarrow> (Inl (NewInternalError (ErrorPrefix C) (Some err)), [Sent rq])
                      | Inr rsp \<Rightarrow>
                          if StatusCode rsp \<noteq> StatusOK then
                            (Inl (SetHTTPStatusCodes (NewInternalError (ErrorPrefix C) None)
                                    (StatusCode rsp) StatusOK),
                             [Sent rq, Closed])
                          else
                            (case resp_Body rsp of
                               Inl err \<Rightarrow>
                                 (Inl (NewInternalError (ErrorPrefix C) (Some err)),
                                  [Sent rq, ReadAll, Closed])
                             | Inr respData \<Rightarrow>
                                 (case unmarshal_response C respData of
                                    Inl err \<Rightarrow>
                                      (Inl (NewInternalError (ErrorPrefix C) (Some err)),
                                       [Sent rq, ReadAll, Decoded respData, Closed])
                                  | Inr respObj \<Rightarrow>
                                      (check_response C reqObj respObj,
                                       [Sent rq, ReadAll, Decoded respData, Closed]))))))"

section \<open>A concrete service and a concrete client\<close>

text \<open>
  One instance of everything the handler and the client take from outside, on which the
  definitions are evaluated. Case folding is the one of ASCII letters; header keys are
  already canonical.
\<close>

definition lower :: "char \<Rightarrow> char" where
  "lower c =
     (case map_of (zip ''ABCDEFGHIJKLMNOPQRSTUVWXYZ'' ''abcdefghijklmnopqrstuvwxyz'') c of
        Some d \<Rightarrow> d
      | None \<Rightarrow> c)"

definition ascii_EqualFold :: "string \<Rightarrow> string \<Rightarrow> bool" where
  "ascii_EqualFold a b = (map lower a = map lower b)"

definition body_batch :: string where
  \<open>body_batch = ''[1,2]''\<close>

definition body_version :: string where
  \<open>body_version = ''{"jsonrpc":"1.0","method":"echo","id":1}''\<close>

definition body_method_array :: string where
  \<open>body_method_array = ''{"jsonrpc":"2.0","method":[1],"id":1}''\<close>

definition body_method_number :: string where
  \<open>body_method_number = ''{"jsonrpc":"2.0","method":7,"id":1}''\<close>

definition body_bool_id :: string where
  \<open>body_bool_id = ''{"jsonrpc":"2.0","method":"echo","id":true}''\<close>

definition body_null :: string where
  \<open>body_null = ''null''\<close>

definition body_notify :: string where
  \<open>body_notify = ''{"jsonrpc":"2.0","method":"echo"}''\<close>

text \<open>The parse of the bodies above; every other text is a syntax error here.\<close>

definition scan0 :: "string \<Rightarrow> string + json" where
  "scan0 d =
     (if d = body_batch then Inr (JArray [JNumber ''1'', JNumber ''2''])
      else if d = body_version then
        Inr (JObject [(''jsonrpc'', JString ''1.0''), (''method'', JString ''echo''),
                      (''id'', JNumber ''1'')])
      else if d = body_method_array then
        Inr (JObject [(''jsonrpc'', JString ''2.0''), (''method'', JArray [JNumber ''1'']),
                      (''id'', JNumber ''1'')])
      else if d = body_method_number then
        Inr (JObject [(''jsonrpc'', JString ''2.0''), (''method'', JNumber ''7''),
                      (''id'', JNumber ''1'')])
      else if d = body_bool_id then
        Inr (JObject [(''jsonrpc'', JString ''2.0''), (''method'', JString ''echo''),
                      (''id'', JBool True)])
      else if d = body_notify then
        Inr (JObject [(''jsonrpc'', JString ''2.0''), (''method'', JString ''echo'')])
      else if d = body_null then Inr JNull
      else Inl ''invalid character'')"

text \<open>Transport validators that accept HTTP/1.1 and POST and ask for no header.\<close>

definition validate_proto0 :: "ResponseObject \<Rightarrow> Request \<Rightarrow> bool \<times> ResponseObject" where
  "validate_proto0 respObj rq =
     (if Proto rq = ''HTTP/1.1'' then (True, respObj)
      else (False, respObj\<lparr>statusCode := 501,
              Error := Some \<lparr>Code = - 32600, Message = ''Invalid Request'',
                             Data = ''unsupported HTTP version''\<rparr>\<rparr>))"

definition validate_method0 :: "ResponseObject \<Rightarrow> Request \<Rightarrow> bool \<times> ResponseObject" where
  "validate_method0 respObj rq =
     (if HTTPMethod rq = ''POST'' then (True, respObj)
      else (False, respObj\<lparr>statusCode := 405,
              Error := Some \<lparr>Code = - 32600, Message = ''Invalid Request'',
                             Data = ''method must be POST''\<rparr>\<rparr>))"

text \<open>The id coercion as the spec describes it: a string or a number, anything else an error.\<close>

fun convert_id0 :: "json option \<Rightarrow> string \<times> ErrorObject option" where
  "convert_id0 None = ([], None)"
| "convert_id0 (Some (JString x)) = (x, None)"
| "convert_id0 (Some (JNumber x)) = (x, None)"
| "convert_id0 (Some v) =
     ([], Some \<lparr>Code = - 32600, Message = ''Invalid Request'',
                 Data = ''unsupported id type''\<rparr>)"

text \<open>A stand-in for the serialisation: the message of the error, or the word result.\<close>

definition marshal0 :: "ResponseObject \<Rightarrow> string" where
  "marshal0 respObj = (case Error respObj of Some e \<Rightarrow> Message e | None \<Rightarrow> ''result'')"

text \<open>A hook error is the status it asks for, 0 for none.\<close>

definition E0 :: "nat env" where
  "E0 =
     \<lparr>canon = (\<lambda>k. k), scan = scan0,
      type_error_text = (\<lambda>v f. ''json: cannot unmarshal '' @ v),
      EqualFold = ascii_EqualFold,
      ValidateHTTPProtocolVersion = validate_proto0,
      ValidateHTTPRequestMethod = validate_method0,
      ValidateHTTPRequestHeaders = (\<lambda>respObj rq. (True, respObj)),
      ConvertIDtoString = convert_id0,
      Marshal = marshal0,
      getHTTPCodeFromHookError = (\<lambda>e. if e = 0 then 500 else e),
      default_headers = [(''Content-Type'', ''application/json'')],
      ParseErrorCode = - 32700, ParseErrorMessage = ''Parse error'',
      NotImplementedCode = - 32099, NotImplementedMessage = ''Not implemented'',
      InvalidMethodCode = - 32098, InvalidMethodMessage = ''Invalid method'',
      InvalidRequestCode = - 32600, InvalidRequestMessage = ''Invalid Request'',
      InvalidVersionData = ''jsonrpc must be 2.0''\<rparr>"

text \<open>A service with two static headers, hooks that accept everything, and an echo method.\<close>

definition s0 :: "nat Service" where
  "s0 =
     \<lparr>s_headers = [(''Server'', ''jrpc2''), (''Content-Type'', ''text/plain'')],
      req = (\<lambda>rq data. None), resp = (\<lambda>rq data. None),
      Call = (\<lambda>m p. (p_params p, None))\<rparr>"

text \<open>The same service with a request hook that refuses every request with 403.\<close>

definition s_refuse :: "nat Service" where
  "s_refuse = s0\<lparr>req := (\<lambda>rq data. Some 403)\<rparr>"

definition w0 :: ResponseWriter where
  "w0 = \<lparr>header = Map.empty, status = None, body = [], broken = False\<rparr>"

definition post :: "string \<Rightarrow> Request" where
  "post data =
     \<lparr>Body = Inr data, Proto = ''HTTP/1.1'', HTTPMethod = ''POST'',
      Header = [(''Content-Type'', ''application/json'')]\<rparr>"

text \<open>A GET request with the body null, and a request whose body cannot be read.\<close>

definition get_null :: Request where
  "get_null = (post body_null)\<lparr>HTTPMethod := ''GET''\<rparr>"

definition unreadable :: Request where
  "unreadable = (post [])\<lparr>Body := Inl ''unexpected EOF''\<rparr>"

text \<open>
  A client whose server answers every request with the given status and body; the
  decoder knows two response texts.
\<close>

definition resp_text :: string where
  \<open>resp_text = ''{"jsonrpc":"2.0","error":{"code":-32601,"message":"Method not found"},"id":"other"}''\<close>

definition resp_text_v1 :: string where
  \<open>resp_text_v1 = ''{"jsonrpc":"1.0","result":true,"id":"6BA7B810-9DAD-11D1-80B4-00C04FD430C8"}''\<close>

definition C0 :: "nat \<Rightarrow> string \<Rightarrow> string client_env" where
  "C0 st bd =
     \<lparr>genUUID = ''6ba7b810-9dad-11d1-80b4-00c04fd430c8'',
      marshal_request = (\<lambda>reqObj. Inr (c_Method reqObj)),
      new_request_error = (\<lambda>u. if u = [] then Some ''empty url'' else None),
      Do = (\<lambda>t rq. Inr \<lparr>StatusCode = st, resp_Body = Inr bd\<rparr>),
      unmarshal_response =
        (\<lambda>d. if d = resp_text
              then Inr \<lparr>rs_Jsonrpc = ''2.0'', rs_Result = [],
                        rs_Error = Some \<lparr>Code = - 32601, Message = ''Method not found'',
                                          Data = []\<rparr>,
                        rs_ID = ''other''\<rparr>
              else if d = resp_text_v1
              then Inr \<lparr>rs_Jsonrpc = ''1.0'', rs_Result = ''true'', rs_Error = None,
                        rs_ID = ''6BA7B810-9DAD-11D1-80B4-00C04FD430C8''\<rparr>
              else Inl ''unexpected end of JSON input''),
      c_EqualFold = ascii_EqualFold, c_canon = (\<lambda>k. k), ErrorPrefix = ''jrpc2''\<rparr>"

definition c0 :: Config where
  "c0 = \<lparr>uri = ''http://127.0.0.1:8080/rpc'', c_headers = [], disableCompression = False,
          socketPath = None, timeout = 5\<rparr>"

section \<open>Properties\<close>

subsection \<open>The response writer and the header loops\<close>

lemma set_headers_status [simp]: "status (set_headers E hs w) = status w"
  by (induction E hs w rule: set_headers.induct) (simp_all add: Header_Set_def)

lemma set_headers_body [simp]: "body (set_headers E hs w) = body w"
  by (induction E hs w rule: set_headers.induct) (simp_all add: Header_Set_def)

lemma set_headers_broken [simp]: "broken (set_headers E hs w) = broken w"
proof (induction hs arbitrary: w)
  case Nil
  show ?case by simp
next
  case (Cons p hs)
  obtain a b where p: "p = (a, b)" by (cases p)
  have "broken (Header_Set E w a b) = broken w" by (simp add: Header_Set_def)
  then show ?case using Cons.IH [of "Header_Set E w a b"] by (simp add: p)
qed

lemma set_headers_absent:
  "\<forall>(h', v') \<in> set hs. canon E h' \<noteq> k \<Longrightarrow> header (set_headers E hs w) k = header w k"
  by (induction hs arbitrary: w) (auto simp: Header_Set_def)

lemma set_headers_agree:
  assumes "\<forall>(h', v') \<in> set hs. canon E h' = k \<longrightarrow> v' = v"
    and "header w k = Some v \<or> (\<exists>(h', v') \<in> set hs. canon E h' = k)"
  shows "header (set_headers E hs w) k = Some v"
  using assms
proof (induction hs arbitrary: w)
  case Nil
  then show ?case by simp
next
  case (Cons p hs)
  obtain a b where p: "p = (a, b)" by (cases p)
  let ?w = "Header_Set E w a b"
  have later: "\<forall>(h', v') \<in> set hs. canon E h' = k \<longrightarrow> v' = v"
    using Cons.prems(1) by auto
  have "header ?w k = Some v \<or> (\<exists>(h', v') \<in> set hs. canon E h' = k)"
  proof (cases "canon E a = k")
    case True
    then have "b = v" using Cons.prems(1) p by auto
    then show ?thesis using True by (simp add: Header_Set_def)
  next
    case False
    then have "header ?w k = header w k" by (auto simp: Header_Set_def)
    then show ?thesis using Cons.prems(2) False p by auto
  qed
  then have "header (set_headers E hs ?w) k = Some v"
    using Cons.IH later by blast
  then show ?case by (simp add: p)
qed

lemma WriteHeader_header [simp]: "header (WriteHeader w c) = header w"
  by (simp add: WriteHeader_def split: option.splits)

lemma WriteHeader_body [simp]: "body (WriteHeader w c) = body w"
  by (simp add: WriteHeader_def split: option.splits)

lemma WriteHeader_broken [simp]: "broken (WriteHeader w c) = broken w"
  by (simp add: WriteHeader_def split: option.splits)

lemma WriteHeader_fresh: "status w = None \<Longrightarrow> status (WriteHeader w c) = Some c"
  by (simp add: WriteHeader_def)

lemma WriteHeader_written: "status w = Some c' \<Longrightarrow> WriteHeader w c = w"
  by (simp add: WriteHeader_def)

lemma Write_header [simp]: "header (fst (Write w b)) = header w"
  by (simp add: Write_def Let_def)

lemma Write_cases:
  "Write w b = (WriteHeader w StatusOK, False) \<or>
   Write w b = ((WriteHeader w StatusOK)\<lparr>body := body w @ b\<rparr>, True)"
  by (simp add: Write_def Let_def)

lemma WriteRespose_header:
  "header (WriteRespose E s w respObj) =
     header (set_headers E (headers respObj) (set_headers E (s_headers s) w))"
proof -
  let ?w2 = "set_headers E (headers respObj) (set_headers E (s_headers s) w)"
  let ?w3 = "WriteHeader ?w2 (statusCode respObj)"
  show ?thesis
    using Write_cases [of ?w3 "Marshal E respObj"]
    by (auto simp: WriteRespose_def Let_def split: option.splits)
qed

subsection \<open>Response transmission\<close>

lemma WriteRespose_notification:
  assumes "notification respObj"
  shows "WriteRespose E s w respObj =
           WriteHeader (set_headers E (headers respObj) (set_headers E (s_headers s) w))
             StatusNoContent"
  using assms by (simp add: WriteRespose_def Let_def)

text \<open>
  C4. A response object marked as a notification is transmitted as HTTP 204 with no body
  byte written, whatever error object (or none) was set on it: on a writer whose status
  is still open, WriteRespose leaves status 204 and the body as it was.
\<close>

theorem C4_notification_204_no_body:
  assumes "notification respObj" and "status w = None"
  shows "status (WriteRespose E s w (respObj\<lparr>Error := e\<rparr>)) = Some 204 \<and>
         body (WriteRespose E s w (respObj\<lparr>Error := e\<rparr>)) = body w"
proof -
  let ?w2 = "set_headers E (headers respObj) (set_headers E (s_headers s) w)"
  have n: "notification (respObj\<lparr>Error := e\<rparr>)" using assms(1) by simp
  have eq: "WriteRespose E s w (respObj\<lparr>Error := e\<rparr>) = WriteHeader ?w2 StatusNoContent"
    using WriteRespose_notification [OF n, of E s w] by simp
  have "status ?w2 = None" using assms(2) by simp
  then have "status (WriteHeader ?w2 StatusNoContent) = Some 204"
    by (simp add: WriteHeader_fresh StatusNoContent_def)
  then show ?thesis using eq by simp
qed

theorem C4_notification_witness:
  "status (WriteRespose E0 s0 w0
      ((DefaultResponseObject E0)\<lparr>notification := True,
         Error := Some \<lparr>Code = - 32601, Message = ''Method not found'', Data = []\<rparr>\<rparr>)) = Some 204 \<and>
   body (WriteRespose E0 s0 w0
      ((DefaultResponseObject E0)\<lparr>notification := True,
         Error := Some \<lparr>Code = - 32601, Message = ''Method not found'', Data = []\<rparr>\<rparr>)) = []"
proof -
  have n: "notification ((DefaultResponseObject E0)\<lparr>notification := True\<rparr>)" by simp
  have o: "status w0 = None" by (simp add: w0_def)
  show ?thesis
    using C4_notification_204_no_body [OF n o, of E0 s0
        "Some \<lparr>Code = - 32601, Message = ''Method not found'', Data = []\<rparr>"]
    by (simp add: w0_def)
qed

lemma set_headers_map:
  "header (set_headers E hs w) = header w ++ map_of (rev (map (apfst (canon E)) hs))"
proof (induction hs arbitrary: w)
  case Nil
  show ?case by simp
next
  case (Cons p hs)
  obtain a b where p: "p = (a, b)" by (cases p)
  have "header (set_headers E (p # hs) w) =
          header (Header_Set E w a b) ++ map_of (rev (map (apfst (canon E)) hs))"
    using Cons.IH [of "Header_Set E w a b"] by (simp add: p)
  also have "header (Header_Set E w a b) = header w ++ map_of [(canon E a, b)]"
    by (simp add: Header_Set_def)
  also have "header w ++ map_of [(canon E a, b)] ++ map_of (rev (map (apfst (canon E)) hs)) =
          header w ++ map_of (rev (map (apfst (canon E)) (p # hs)))"
    by (simp add: p)
  finally show ?case .
qed

text \<open>
  C7. WriteRespose sets the static headers of the service first and the dynamic headers
  of the response object second. The header map it leaves is the writer's own map,
  overridden by the static headers, overridden by the dynamic headers (keys in canonical
  form; within one loop the entry visited last stands, which is the first one
  \<open>map_of\<close> finds in the reversed list). So a static header that no dynamic header
  names is on the response, and a name the response object defines (with one value, up
  to the canonical form of the name) ends with the dynamic value, whatever the static
  headers and the writer held for it.
\<close>

theorem C7_static_then_dynamic_headers:
  "header (WriteRespose E s w respObj) =
     header w ++ map_of (rev (map (apfst (canon E)) (s_headers s)))
              ++ map_of (rev (map (apfst (canon E)) (headers respObj))) \<and>
   ((h, v) \<in> set (headers respObj) \<and>
    (\<forall>(h', v') \<in> set (headers respObj). canon E h' = canon E h \<longrightarrow> v' = v) \<longrightarrow>
    header (WriteRespose E s w respObj) (canon E h) = Some v)"
proof -
  have one: "header (WriteRespose E s w respObj) =
     header w ++ map_of (rev (map (apfst (canon E)) (s_headers s)))
              ++ map_of (rev (map (apfst (canon E)) (headers respObj)))"
    by (simp add: WriteRespose_header set_headers_map)
  have two: "header (WriteRespose E s w respObj) (canon E h) = Some v"
    if a: "(h, v) \<in> set (headers respObj)"
      and b: "\<forall>(h', v') \<in> set (headers respObj). canon E h' = canon E h \<longrightarrow> v' = v"
  proof -
    have "\<exists>(h', v') \<in> set (headers respObj). canon E h' = canon E h"
      using a by auto
    then have "header (set_headers E (headers respObj) (set_headers E (s_headers s) w))
                 (canon E h) = Some v"
      using set_headers_agree [of "headers respObj" E "canon E h" v] b by blast
    then show ?thesis by (simp add: WriteRespose_header)
  qed
  show ?thesis using one two by blast
qed

theorem C7_static_then_dynamic_witness:
  "header (WriteRespose E0 s0 w0 (DefaultResponseObject E0)) ''Server'' = Some ''jrpc2'' \<and>
   map_of (s_headers s0) ''Content-Type'' = Some ''text/plain'' \<and>
   header (WriteRespose E0 s0 w0 (DefaultResponseObject E0)) ''Content-Type''
     = Some ''application/json''"
proof -
  have a: "(''Content-Type'', ''application/json'') \<in> set (headers (DefaultResponseObject E0))"
    by (simp add: DefaultResponseObject_def E0_def)
  have b: "\<forall>(h', v') \<in> set (headers (DefaultResponseObject E0)).
             canon E0 h' = canon E0 ''Content-Type'' \<longrightarrow> v' = ''application/json''"
    by (simp add: DefaultResponseObject_def E0_def)
  have c: "canon E0 = (\<lambda>k. k)" by (simp add: E0_def)
  have hs: "headers (DefaultResponseObject E0) = [(''Content-Type'', ''application/json'')]"
    "s_headers s0 = [(''Server'', ''jrpc2''), (''Content-Type'', ''text/plain'')]"
    "header w0 = Map.empty"
    by (simp_all add: DefaultResponseObject_def E0_def s0_def w0_def)
  have server: "header (WriteRespose E0 s0 w0 (DefaultResponseObject E0)) ''Server''
                  = Some ''jrpc2''"
    using C7_static_then_dynamic_headers
            [of E0 s0 w0 "DefaultResponseObject E0", THEN conjunct1]
    by (simp add: hs c map_add_def)
  have ctype: "header (WriteRespose E0 s0 w0 (DefaultResponseObject E0)) ''Content-Type''
                 = Some ''application/json''"
    using C7_static_then_dynamic_headers
            [of E0 s0 w0 "DefaultResponseObject E0" "''Content-Type''" "''application/json''",
             THEN conjunct2] a b
    by (simp add: c)
  show ?thesis using server ctype by (simp add: hs)
qed

subsection \<open>The client\<close>

lemma lower_cases: "lower c = c \<or> lower c \<in> set ''abcdefghijklmnopqrstuvwxyz''"
proof (cases "map_of (zip ''ABCDEFGHIJKLMNOPQRSTUVWXYZ'' ''abcdefghijklmnopqrstuvwxyz'') c")
  case None
  then show ?thesis by (simp add: lower_def)
next
  case (Some d)
  then have "(c, d) \<in> set (zip ''ABCDEFGHIJKLMNOPQRSTUVWXYZ'' ''abcdefghijklmnopqrstuvwxyz'')"
    by (rule map_of_SomeD)
  then have "d \<in> set ''abcdefghijklmnopqrstuvwxyz''" by (rule set_zip_rightD)
  moreover have "lower c = d" using Some by (simp add: lower_def)
  ultimately show ?thesis by simp
qed

lemma lower_not_letter:
  assumes "lower c = d" and "d \<notin> set ''abcdefghijklmnopqrstuvwxyz''"
  shows "c = d"
  using lower_cases [of c] assms by auto

lemma ascii_EqualFold_version:
  assumes "ascii_EqualFold ''2.0'' x"
  shows "x = ''2.0''"
proof -
  have m: "map lower x = map lower ''2.0''" using assms by (simp add: ascii_EqualFold_def)
  have l: "map lower ''2.0'' = ''2.0''" by (simp add: lower_def)
  from m l have mx: "map lower x = [CHR ''2'', CHR ''.'', CHR ''0'']" by simp
  then obtain a b c where x: "x = [a, b, c]"
    and la: "lower a = CHR ''2''" and lb: "lower b = CHR ''.''" and lc: "lower c = CHR ''0''"
    by (auto simp: map_eq_Cons_conv)
  have "a = CHR ''2''" using lower_not_letter [OF la] by simp
  moreover have "b = CHR ''.''" using lower_not_letter [OF lb] by simp
  moreover have "c = CHR ''0''" using lower_not_letter [OF lc] by simp
  ultimately show ?thesis using x by simp
qed

lemma client_Call_status:
  assumes "marshal_request C (getRequestObject C method params) = Inr reqData"
    and "new_request_error C (uri c) = None"
    and "Do C (timeout c) (build_request C c reqData) = Inr rsp"
    and "StatusCode rsp \<noteq> StatusOK"
  shows "client_Call C c method params =
           (Inl (SetHTTPStatusCodes (NewInternalError (ErrorPrefix C) None)
                   (StatusCode rsp) StatusOK),
            [Sent (build_request C c reqData), Closed])"
  using assms by (simp add: client_Call_def Let_def)

lemma client_Call_decoded:
  assumes "marshal_request C (getRequestObject C method params) = Inr reqData"
    and "new_request_error C (uri c) = None"
    and "Do C (timeout c) (build_request C c reqData) = Inr rsp"
    and "StatusCode rsp = StatusOK"
    and "resp_Body rsp = Inr respData"
    and "unmarshal_response C respData = Inr respObj"
  shows "client_Call C c method params =
           (check_response C (getRequestObject C method params) respObj,
            [Sent (build_request C c reqData), ReadAll, Decoded respData, Closed])"
  using assms by (simp add: client_Call_def Let_def)

lemma C0_call:
  "marshal_request (C0 st bd) (getRequestObject (C0 st bd) ''echo'' ''{}'') = Inr ''echo''"
  "new_request_error (C0 st bd) (uri c0) = None"
  "Do (C0 st bd) (timeout c0) (build_request (C0 st bd) c0 ''echo'')
     = Inr \<lparr>StatusCode = st, resp_Body = Inr bd\<rparr>"
  by (simp_all add: C0_def c0_def getRequestObject_def)

lemma C0_fields:
  "genUUID (C0 st bd) = ''6ba7b810-9dad-11d1-80b4-00c04fd430c8''"
  "ErrorPrefix (C0 st bd) = ''jrpc2''"
  by (simp_all add: C0_def)

lemma C0_fold: "\<forall>x. c_EqualFold (C0 st bd) ''2.0'' x \<longrightarrow> x = ''2.0''"
  using ascii_EqualFold_version by (simp add: C0_def)

text \<open>
  C3. When the round trip returns a response whose status is not 200, Call returns the
  internal error that carries the observed status and the expected 200, and it has done
  nothing but send the one request and close the response body: the body is neither
  read nor handed to the JSON decoder, and no second request is sent.
\<close>

theorem C3_status_not_200:
  assumes "marshal_request C (getRequestObject C method params) = Inr reqData"
    and "new_request_error C (uri c) = None"
    and "Do C (timeout c) (build_request C c reqData) = Inr rsp"
    and "StatusCode rsp \<noteq> 200"
  shows "client_Call C c method params =
           (Inl (InternalError (ErrorPrefix C) None (HTTPStatusCodes (StatusCode rsp) 200)),
            [Sent (build_request C c reqData), Closed])"
proof -
  have "StatusCode rsp \<noteq> StatusOK" using assms(4) by (simp add: StatusOK_def)
  then show ?thesis
    using client_Call_status [OF assms(1) assms(2) assms(3)]
    by (simp add: NewInternalError_def StatusOK_def)
qed

theorem C3_status_not_200_witness:
  "client_Call (C0 503 resp_text) c0 ''echo'' ''{}'' =
     (Inl (InternalError ''jrpc2'' None (HTTPStatusCodes 503 200)),
      [Sent (build_request (C0 503 resp_text) c0 ''echo''), Closed])"
proof -
  have st: "StatusCode \<lparr>StatusCode = 503, resp_Body = Inr resp_text\<rparr> \<noteq> (200::nat)"
    by simp
  have "ErrorPrefix (C0 503 resp_text) = ''jrpc2''" by (simp add: C0_def)
  then show ?thesis
    using C3_status_not_200 [OF C0_call(1) C0_call(2) C0_call(3) st] by simp
qed

text \<open>
  C5. When the response body decodes to an envelope, Call compares the response id with
  the request id up to case, and the response version with the request's "2.0": an id
  that does not match fails with the internal error carrying the observed and the
  expected id, a version other than "2.0" (the id matching) fails with the internal
  error carrying the observed and the expected version, and only a response that passes
  both yields its error object or its result. Both comparisons are made with
  \<^verbatim>\<open>strings.EqualFold\<close>; that it relates "2.0" to no other text is the last
  hypothesis.
\<close>

theorem C5_id_and_version_checked:
  assumes "marshal_request C (getRequestObject C method params) = Inr reqData"
    and "new_request_error C (uri c) = None"
    and "Do C (timeout c) (build_request C c reqData) = Inr rsp"
    and "StatusCode rsp = 200"
    and "resp_Body rsp = Inr respData"
    and "unmarshal_response C respData = Inr respObj"
    and "\<forall>x. c_EqualFold C ''2.0'' x \<longrightarrow> x = ''2.0''"
  shows "(\<not> c_EqualFold C (genUUID C) (rs_ID respObj) \<longrightarrow>
            fst (client_Call C c method params) =
              Inl (InternalError (ErrorPrefix C) None (RPCIDs (rs_ID respObj) (genUUID C)))) \<and>
         (c_EqualFold C (genUUID C) (rs_ID respObj) \<and> rs_Jsonrpc respObj \<noteq> ''2.0'' \<longrightarrow>
            fst (client_Call C c method params) =
              Inl (InternalError (ErrorPrefix C) None
                     (ProtocolVersions (rs_Jsonrpc respObj) ''2.0''))) \<and>
         ((\<exists>e. fst (client_Call C c method params) = Inl (ResponseError e)) \<or>
          (\<exists>res. fst (client_Call C c method params) = Inr res) \<longrightarrow>
            c_EqualFold C (genUUID C) (rs_ID respObj) \<and> rs_Jsonrpc respObj = ''2.0'')"
proof -
  have ok: "StatusCode rsp = StatusOK" using assms(4) by (simp add: StatusOK_def)
  have call: "fst (client_Call C c method params) =
                check_response C (getRequestObject C method params) respObj"
    using client_Call_decoded [OF assms(1) assms(2) assms(3) ok assms(5) assms(6)] by simp
  have ver: "rs_Jsonrpc respObj \<noteq> ''2.0'' \<Longrightarrow> \<not> c_EqualFold C ''2.0'' (rs_Jsonrpc respObj)"
    using assms(7) by blast
  have one: "\<not> c_EqualFold C (genUUID C) (rs_ID respObj) \<longrightarrow>
            fst (client_Call C c method params) =
              Inl (InternalError (ErrorPrefix C) None (RPCIDs (rs_ID respObj) (genUUID C)))"
    by (simp add: call check_response_def getRequestObject_def NewInternalError_def)
  have two: "c_EqualFold C (genUUID C) (rs_ID respObj) \<and> rs_Jsonrpc respObj \<noteq> ''2.0'' \<longrightarrow>
            fst (client_Call C c method params) =
              Inl (InternalError (ErrorPrefix C) None
                     (ProtocolVersions (rs_Jsonrpc respObj) ''2.0''))"
    using ver by (simp add: call check_response_def getRequestObject_def NewInternalError_def)
  have three: "(\<exists>e. fst (client_Call C c method params) = Inl (ResponseError e)) \<or>
          (\<exists>res. fst (client_Call C c method params) = Inr res) \<longrightarrow>
            c_EqualFold C (genUUID C) (rs_ID respObj) \<and> rs_Jsonrpc respObj = ''2.0''"
    using assms(7)
    by (auto simp: call check_response_def getRequestObject_def NewInternalError_def
          split: if_splits)
  show ?thesis using one two three by blast
qed

theorem C5_id_and_version_witness:
  "fst (client_Call (C0 200 resp_text) c0 ''echo'' ''{}'') =
     Inl (InternalError ''jrpc2'' None
            (RPCIDs ''other'' ''6ba7b810-9dad-11d1-80b4-00c04fd430c8'')) \<and>
   fst (client_Call (C0 200 resp_text_v1) c0 ''echo'' ''{}'') =
     Inl (InternalError ''jrpc2'' None (ProtocolVersions ''1.0'' ''2.0''))"
proof -
  let ?o1 = "\<lparr>rs_Jsonrpc = ''2.0'', rs_Result = [],
               rs_Error = Some \<lparr>Code = - 32601, Message = ''Method not found'', Data = []\<rparr>,
               rs_ID = ''other''\<rparr>"
  let ?o2 = "\<lparr>rs_Jsonrpc = ''1.0'', rs_Result = ''true'', rs_Error = None,
               rs_ID = ''6BA7B810-9DAD-11D1-80B4-00C04FD430C8''\<rparr>"
  have u1: "unmarshal_response (C0 200 resp_text) resp_text = Inr ?o1"
    by (simp add: C0_def)
  have u2: "unmarshal_response (C0 200 resp_text_v1) resp_text_v1 = Inr ?o2"
    by (simp add: C0_def resp_text_def resp_text_v1_def)
  have st: "\<And>bd. StatusCode \<lparr>StatusCode = 200, resp_Body = Inr bd\<rparr> = (200::nat)"
    by simp
  have bd: "\<And>bd. resp_Body \<lparr>StatusCode = (200::nat), resp_Body = Inr bd\<rparr> = Inr bd"
    by simp
  have id1: "\<not> c_EqualFold (C0 200 resp_text) ''6ba7b810-9dad-11d1-80b4-00c04fd430c8''
                 ''other''"
    by (simp add: C0_def ascii_EqualFold_def)
  have id2: "c_EqualFold (C0 200 resp_text_v1) ''6ba7b810-9dad-11d1-80b4-00c04fd430c8''
               ''6BA7B810-9DAD-11D1-80B4-00C04FD430C8''"
    by (simp add: C0_def ascii_EqualFold_def lower_def)
  have a: "fst (client_Call (C0 200 resp_text) c0 ''echo'' ''{}'') =
     Inl (InternalError ''jrpc2'' None
            (RPCIDs ''other'' ''6ba7b810-9dad-11d1-80b4-00c04fd430c8''))"
    using C5_id_and_version_checked
            [OF C0_call(1) C0_call(2) C0_call(3) st bd u1 C0_fold, THEN conjunct1] id1
    by (simp add: C0_fields)
  have b: "fst (client_Call (C0 200 resp_text_v1) c0 ''echo'' ''{}'') =
     Inl (InternalError ''jrpc2'' None (ProtocolVersions ''1.0'' ''2.0''))"
    using C5_id_and_version_checked
            [OF C0_call(1) C0_call(2) C0_call(3) st bd u2 C0_fold, THEN conjunct2,
             THEN conjunct1] id2
    by (simp add: C0_fields)
  show ?thesis using a b by simp
qed

text \<open>
  C10. The id check comes before the error field is looked at: a decoded response that
  carries an error object and whose id does not match the request id up to case makes
  Call return the id-mismatch internal error, not the error object of the response.
\<close>

theorem C10_id_check_before_error:
  assumes "marshal_request C (getRequestObject C method params) = Inr reqData"
    and "new_request_error C (uri c) = None"
    and "Do C (timeout c) (build_request C c reqData) = Inr rsp"
    and "StatusCode rsp = 200"
    and "resp_Body rsp = Inr respData"
    and "unmarshal_response C respData = Inr respObj"
    and "rs_Error respObj = Some e"
    and "\<not> c_EqualFold C (genUUID C) (rs_ID respObj)"
  shows "fst (client_Call C c method params) =
           Inl (InternalError (ErrorPrefix C) None (RPCIDs (rs_ID respObj) (genUUID C))) \<and>
         fst (client_Call C c method params) \<noteq> Inl (ResponseError e)"
proof -
  have ok: "StatusCode rsp = StatusOK" using assms(4) by (simp add: StatusOK_def)
  have "fst (client_Call C c method params) =
          check_response C (getRequestObject C method params) respObj"
    using client_Call_decoded [OF assms(1) assms(2) assms(3) ok assms(5) assms(6)] by simp
  then show ?thesis
    using assms(8) by (simp add: check_response_def getRequestObject_def NewInternalError_def)
qed

theorem C10_id_check_before_error_witness:
  "fst (client_Call (C0 200 resp_text) c0 ''echo'' ''{}'') =
     Inl (InternalError ''jrpc2'' None
            (RPCIDs ''other'' ''6ba7b810-9dad-11d1-80b4-00c04fd430c8'')) \<and>
   fst (client_Call (C0 200 resp_text) c0 ''echo'' ''{}'') \<noteq>
     Inl (ResponseError \<lparr>Code = - 32601, Message = ''Method not found'', Data = []\<rparr>)"
proof -
  let ?o1 = "\<lparr>rs_Jsonrpc = ''2.0'', rs_Result = [],
               rs_Error = Some \<lparr>Code = - 32601, Message = ''Method not found'', Data = []\<rparr>,
               rs_ID = ''other''\<rparr>"
  have u1: "unmarshal_response (C0 200 resp_text) resp_text = Inr ?o1"
    by (simp add: C0_def)
  have e1: "rs_Error ?o1 = Some \<lparr>Code = - 32601, Message = ''Method not found'', Data = []\<rparr>"
    by simp
  have id1: "\<not> c_EqualFold (C0 200 resp_text) (genUUID (C0 200 resp_text)) (rs_ID ?o1)"
    by (simp add: C0_def ascii_EqualFold_def)
  show ?thesis
    using C10_id_check_before_error [OF C0_call(1) C0_call(2) C0_call(3) _ _ u1 e1 id1]
    by (simp add: C0_def)
qed

subsection \<open>The server dispatcher\<close>

lemma ServeHTTP_decode_stage:
  assumes "reaches_decode E s rq data respObj"
  shows "ServeHTTP E s w rq = decode_stage E s w rq respObj data"
proof -
  let ?r0 = "(DefaultResponseObject E)\<lparr>r := Some rq\<rparr>"
  obtain b1 r1 where v1: "ValidateHTTPProtocolVersion E ?r0 rq = (b1, r1)" by fastforce
  obtain b2 r2 where v2: "ValidateHTTPRequestMethod E r1 rq = (b2, r2)" by fastforce
  obtain b3 r3 where v3: "ValidateHTTPRequestHeaders E r2 rq = (b3, r3)" by fastforce
  have "Body rq = Inr data" and "req s rq data = None" and "b1" and "b2" and "b3"
    and "r3 = respObj"
    using assms v1 v2 v3 by (simp_all add: reaches_decode_def Let_def)
  then show ?thesis
    using v1 v2 v3 by (simp add: ServeHTTP_def Let_def)
qed

lemma WriteRespose_sent:
  assumes "\<not> notification respObj"
    and "resp s (r respObj) (Marshal E respObj) = None"
    and "status w = None"
  shows "status (WriteRespose E s w respObj) = Some (statusCode respObj) \<and>
         (\<not> broken w \<longrightarrow> body (WriteRespose E s w respObj) = body w @ Marshal E respObj)"
proof -
  let ?w2 = "set_headers E (headers respObj) (set_headers E (s_headers s) w)"
  let ?w3 = "WriteHeader ?w2 (statusCode respObj)"
  have s3: "status ?w3 = Some (statusCode respObj)"
    using assms(3) by (simp add: WriteHeader_fresh)
  have h3: "WriteHeader ?w3 StatusOK = ?w3"
    using s3 by (rule WriteHeader_written)
  have h4: "WriteHeader ?w3 StatusInternalServerError = ?w3"
    using s3 by (rule WriteHeader_written)
  have wr: "Write ?w3 (Marshal E respObj) =
          (if broken w then (?w3, False)
           else (?w3\<lparr>body := body w @ Marshal E respObj\<rparr>, True))"
    by (simp add: Write_def Let_def h3)
  have eq: "WriteRespose E s w respObj =
          (if broken w then ?w3 else ?w3\<lparr>body := body w @ Marshal E respObj\<rparr>)"
    using assms(1) assms(2) by (simp add: WriteRespose_def Let_def wr h4)
  show ?thesis using s3 by (simp add: eq)
qed

lemma E0_reaches_decode:
  "reaches_decode E0 s0 (post data) data ((DefaultResponseObject E0)\<lparr>r := Some (post data)\<rparr>)"
  by (simp add: reaches_decode_def Let_def E0_def s0_def post_def validate_proto0_def
        validate_method0_def)

lemma decode_stage_array:
  assumes "Unmarshal E data = Inl (UnmarshalTypeError ''array'' fld)"
  shows "decode_stage E s w rq respObj data =
           Done (WriteRespose E s w
                  (respObj\<lparr>Error := Some \<lparr>Code = NotImplementedCode E,
                      Message = NotImplementedMessage E,
                      Data = ''batch requests not supported''\<rparr>\<rparr>)) []"
  using assms by (simp add: decode_stage_def Let_def)

lemma Unmarshal_array:
  assumes "scan E data = Inr (JArray xs)"
  shows "Unmarshal E data = Inl (UnmarshalTypeError ''array'' [])"
  using assms by (simp add: Unmarshal_def)

lemma E0_consts:
  "ParseErrorCode E0 = - 32700" "ParseErrorMessage E0 = ''Parse error''"
  "NotImplementedCode E0 = - 32099" "NotImplementedMessage E0 = ''Not implemented''"
  "InvalidMethodCode E0 = - 32098" "InvalidMethodMessage E0 = ''Invalid method''"
  "InvalidRequestCode E0 = - 32600" "InvalidRequestMessage E0 = ''Invalid Request''"
  "InvalidVersionData E0 = ''jsonrpc must be 2.0''"
  "Marshal E0 = marshal0" "scan E0 = scan0" "ConvertIDtoString E0 = convert_id0"
  "EqualFold E0 = ascii_EqualFold"
  by (simp_all add: E0_def)

lemma default0:
  "notification ((DefaultResponseObject E)\<lparr>r := x\<rparr>) = False"
  "statusCode ((DefaultResponseObject E)\<lparr>r := x\<rparr>) = 200"
  "ID ((DefaultResponseObject E)\<lparr>r := x\<rparr>) = None"
  "r ((DefaultResponseObject E)\<lparr>r := x\<rparr>) = x"
  "notification (DefaultResponseObject E) = False"
  "statusCode (DefaultResponseObject E) = 200"
  "ID (DefaultResponseObject E) = None"
  by (simp_all add: DefaultResponseObject_def StatusOK_def)

lemma s0_hooks: "resp s0 x y = None" "req s0 u v = None"
  by (simp_all add: s0_def)

lemma w0_fresh: "status w0 = None" "\<not> broken w0" "body w0 = []"
  by (simp_all add: w0_def)

text \<open>
  C1. A request that reaches the decode stage and whose body is a top-level JSON array
  is answered through WriteRespose with the error object of code \<open>NotImplementedCode\<close>
  ("batch requests not supported") in place of the parse error set first, and the method
  registry is not called; when the response hook accepts it and the writer is fresh and
  working, the serialisation of that response object is what is written.
\<close>

theorem C1_batch_not_implemented:
  assumes "reaches_decode E s rq data respObj"
    and "scan E data = Inr (JArray xs)"
  shows "ServeHTTP E s w rq =
           Done (WriteRespose E s w
                  (respObj\<lparr>Error := Some \<lparr>Code = NotImplementedCode E,
                      Message = NotImplementedMessage E,
                      Data = ''batch requests not supported''\<rparr>\<rparr>)) [] \<and>
         (\<not> notification respObj \<and> status w = None \<and> \<not> broken w \<and>
          resp s (r respObj) (Marshal E
                  (respObj\<lparr>Error := Some \<lparr>Code = NotImplementedCode E,
                      Message = NotImplementedMessage E,
                      Data = ''batch requests not supported''\<rparr>\<rparr>)) = None \<longrightarrow>
          body (WriteRespose E s w
                  (respObj\<lparr>Error := Some \<lparr>Code = NotImplementedCode E,
                      Message = NotImplementedMessage E,
                      Data = ''batch requests not supported''\<rparr>\<rparr>)) =
            body w @ Marshal E
                  (respObj\<lparr>Error := Some \<lparr>Code = NotImplementedCode E,
                      Message = NotImplementedMessage E,
                      Data = ''batch requests not supported''\<rparr>\<rparr>))"
proof -
  let ?ro = "respObj\<lparr>Error := Some \<lparr>Code = NotImplementedCode E,
                      Message = NotImplementedMessage E,
                      Data = ''batch requests not supported''\<rparr>\<rparr>"
  have "ServeHTTP E s w rq = decode_stage E s w rq respObj data"
    using assms(1) by (rule ServeHTTP_decode_stage)
  then have one: "ServeHTTP E s w rq = Done (WriteRespose E s w ?ro) []"
    using decode_stage_array [OF Unmarshal_array [OF assms(2)]] by simp
  have two: "body (WriteRespose E s w ?ro) = body w @ Marshal E ?ro"
    if "\<not> notification respObj" "status w = None" "\<not> broken w"
       "resp s (r respObj) (Marshal E ?ro) = None"
    using WriteRespose_sent [of ?ro s E w] that by simp
  show ?thesis using one two by blast
qed

theorem C1_batch_witness:
  "ServeHTTP E0 s0 w0 (post body_batch) =
     Done (WriteRespose E0 s0 w0
            ((DefaultResponseObject E0)\<lparr>r := Some (post body_batch),
               Error := Some \<lparr>Code = - 32099, Message = ''Not implemented'',
                               Data = ''batch requests not supported''\<rparr>\<rparr>)) [] \<and>
   body (WriteRespose E0 s0 w0
            ((DefaultResponseObject E0)\<lparr>r := Some (post body_batch),
               Error := Some \<lparr>Code = - 32099, Message = ''Not implemented'',
                               Data = ''batch requests not supported''\<rparr>\<rparr>)) =
     ''Not implemented'' \<and>
   ParseErrorCode E0 = - 32700"
proof -
  have sc: "scan E0 body_batch = Inr (JArray [JNumber ''1'', JNumber ''2''])"
    by (simp add: E0_consts scan0_def)
  show ?thesis
    using C1_batch_not_implemented [OF E0_reaches_decode sc, of w0]
    by (simp add: E0_consts default0 s0_hooks w0_fresh marshal0_def)
qed

lemma Unmarshal_E0:
  "Unmarshal E0 body_version =
     Inr (Some \<lparr>req_Jsonrpc = ''1.0'', req_Method = ''echo'', req_Params = None,
                 req_ID = Some (JNumber ''1'')\<rparr>)"
  "Unmarshal E0 body_method_array = Inl (UnmarshalTypeError ''array'' ''method'')"
  "Unmarshal E0 body_method_number = Inl (UnmarshalTypeError ''number'' ''method'')"
  "Unmarshal E0 body_bool_id =
     Inr (Some \<lparr>req_Jsonrpc = ''2.0'', req_Method = ''echo'', req_Params = None,
                 req_ID = Some (JBool True)\<rparr>)"
  "Unmarshal E0 body_null = Inr None"
  by (simp_all add: Unmarshal_def E0_consts scan0_def body_batch_def body_version_def
        body_method_array_def body_method_number_def body_bool_id_def body_notify_def
        body_null_def
        decode_member_def find_field_def request_fields_def new_RequestObject_def
        saveError_def Let_def)

lemma dispatch_version:
  assumes "req_Jsonrpc reqObj \<noteq> ''2.0''"
  shows "dispatch E s w rq respObj reqObj =
           Done (WriteRespose E s w
                  (respObj\<lparr>Error := Some \<lparr>Code = InvalidRequestCode E,
                      Message = InvalidRequestMessage E,
                      Data = InvalidVersionData E\<rparr>\<rparr>)) []"
  using assms by (simp add: dispatch_def ValidateJSONRPCVersionNumber_def)

lemma dispatch_id:
  assumes "req_Jsonrpc reqObj = ''2.0''"
    and "ConvertIDtoString E (req_ID reqObj) = (x, Some errObj)"
  shows "dispatch E s w rq respObj reqObj =
           Done (WriteRespose E s w (respObj\<lparr>Error := Some errObj\<rparr>)) []"
  using assms by (simp add: dispatch_def ValidateJSONRPCVersionNumber_def)

lemma decode_stage_decoded:
  assumes "Unmarshal E data = Inr (Some reqObj)"
  shows "decode_stage E s w rq respObj data = dispatch E s w rq respObj reqObj"
  using assms by (simp add: decode_stage_def)

text \<open>
  C2. A request that reaches the decode stage with the response object still at status
  200, decodes to a request object, and whose version field is not "2.0" is answered
  through WriteRespose with the \<open>InvalidRequestCode\<close> error object, and the list of calls
  to the method registry is empty; when the response hook accepts the response and the
  writer's status is open, the status written is 200 and, on a working writer, the body
  is the serialised response.
\<close>

theorem C2_version_mismatch:
  assumes "reaches_decode E s rq data respObj"
    and "Unmarshal E data = Inr (Some reqObj)"
    and "req_Jsonrpc reqObj \<noteq> ''2.0''"
    and "statusCode respObj = 200"
    and "\<not> notification respObj"
  shows "ServeHTTP E s w rq =
           Done (WriteRespose E s w
                  (respObj\<lparr>Error := Some \<lparr>Code = InvalidRequestCode E,
                      Message = InvalidRequestMessage E,
                      Data = InvalidVersionData E\<rparr>\<rparr>)) [] \<and>
         (status w = None \<and>
          resp s (r respObj) (Marshal E
                  (respObj\<lparr>Error := Some \<lparr>Code = InvalidRequestCode E,
                      Message = InvalidRequestMessage E,
                      Data = InvalidVersionData E\<rparr>\<rparr>)) = None \<longrightarrow>
          status (WriteRespose E s w
                  (respObj\<lparr>Error := Some \<lparr>Code = InvalidRequestCode E,
                      Message = InvalidRequestMessage E,
                      Data = InvalidVersionData E\<rparr>\<rparr>)) = Some 200 \<and>
          (\<not> broken w \<longrightarrow>
           body (WriteRespose E s w
                  (respObj\<lparr>Error := Some \<lparr>Code = InvalidRequestCode E,
                      Message = InvalidRequestMessage E,
                      Data = InvalidVersionData E\<rparr>\<rparr>)) =
             body w @ Marshal E
                  (respObj\<lparr>Error := Some \<lparr>Code = InvalidRequestCode E,
                      Message = InvalidRequestMessage E,
                      Data = InvalidVersionData E\<rparr>\<rparr>)))"
proof -
  let ?ro = "respObj\<lparr>Error := Some \<lparr>Code = InvalidRequestCode E,
                      Message = InvalidRequestMessage E,
                      Data = InvalidVersionData E\<rparr>\<rparr>"
  have "ServeHTTP E s w rq = decode_stage E s w rq respObj data"
    using assms(1) by (rule ServeHTTP_decode_stage)
  then have one: "ServeHTTP E s w rq = Done (WriteRespose E s w ?ro) []"
    using decode_stage_decoded [OF assms(2)] dispatch_version [OF assms(3)] by simp
  have two: "status (WriteRespose E s w ?ro) = Some 200 \<and>
          (\<not> broken w \<longrightarrow> body (WriteRespose E s w ?ro) = body w @ Marshal E ?ro)"
    if "status w = None" "resp s (r respObj) (Marshal E ?ro) = None"
    using WriteRespose_sent [of ?ro s E w] that assms(4) assms(5) by simp
  show ?thesis using one two by blast
qed

theorem C2_version_mismatch_witness:
  "ServeHTTP E0 s0 w0 (post body_version) =
     Done (WriteRespose E0 s0 w0
            ((DefaultResponseObject E0)\<lparr>r := Some (post body_version),
               Error := Some \<lparr>Code = - 32600, Message = ''Invalid Request'',
                               Data = ''jsonrpc must be 2.0''\<rparr>\<rparr>)) [] \<and>
   status (WriteRespose E0 s0 w0
            ((DefaultResponseObject E0)\<lparr>r := Some (post body_version),
               Error := Some \<lparr>Code = - 32600, Message = ''Invalid Request'',
                               Data = ''jsonrpc must be 2.0''\<rparr>\<rparr>)) = Some 200 \<and>
   body (WriteRespose E0 s0 w0
            ((DefaultResponseObject E0)\<lparr>r := Some (post body_version),
               Error := Some \<lparr>Code = - 32600, Message = ''Invalid Request'',
                               Data = ''jsonrpc must be 2.0''\<rparr>\<rparr>)) = ''Invalid Request''"
proof -
  have v: "req_Jsonrpc \<lparr>req_Jsonrpc = ''1.0'', req_Method = ''echo'', req_Params = None,
                         req_ID = Some (JNumber ''1'')\<rparr> \<noteq> ''2.0''"
    by simp
  show ?thesis
    using C2_version_mismatch [OF E0_reaches_decode Unmarshal_E0(1) v default0(2) _, of w0]
    by (simp add: E0_consts default0 s0_hooks w0_fresh marshal0_def)
qed

lemma ServeHTTP_read_error:
  assumes "Body rq = Inl err"
  shows "ServeHTTP E s w rq =
           Done (WriteRespose E s w
                  ((DefaultResponseObject E)\<lparr>r := Some rq, statusCode := 400,
                     Error := Some \<lparr>Code = ParseErrorCode E, Message = ParseErrorMessage E,
                                     Data = err\<rparr>\<rparr>)) []"
  using assms by (simp add: ServeHTTP_def Let_def StatusBadRequest_def)

lemma ServeHTTP_request_hook:
  assumes "Body rq = Inr data" and "req s rq data = Some e"
  shows "ServeHTTP E s w rq = Done (WriteHeader w (getHTTPCodeFromHookError E e)) []"
  using assms by (simp add: ServeHTTP_def Let_def)

lemma ServeHTTP_protocol_refused:
  assumes "Body rq = Inr data" and "req s rq data = None"
    and "ValidateHTTPProtocolVersion E ((DefaultResponseObject E)\<lparr>r := Some rq\<rparr>) rq
           = (False, ra)"
  shows "ServeHTTP E s w rq = Done (WriteRespose E s w ra) []"
  using assms by (simp add: ServeHTTP_def Let_def)

lemma ServeHTTP_method_refused:
  assumes "Body rq = Inr data" and "req s rq data = None"
    and "ValidateHTTPProtocolVersion E ((DefaultResponseObject E)\<lparr>r := Some rq\<rparr>) rq
           = (True, ra)"
    and "ValidateHTTPRequestMethod E ra rq = (False, rb)"
  shows "ServeHTTP E s w rq = Done (WriteRespose E s w rb) []"
  using assms by (simp add: ServeHTTP_def Let_def)

lemma ServeHTTP_headers_refused:
  assumes "Body rq = Inr data" and "req s rq data = None"
    and "ValidateHTTPProtocolVersion E ((DefaultResponseObject E)\<lparr>r := Some rq\<rparr>) rq
           = (True, ra)"
    and "ValidateHTTPRequestMethod E ra rq = (True, rb)"
    and "ValidateHTTPRequestHeaders E rb rq = (False, rc)"
  shows "ServeHTTP E s w rq = Done (WriteRespose E s w rc) []"
  using assms by (simp add: ServeHTTP_def Let_def)

lemma decode_stage_syntax:
  assumes "Unmarshal E data = Inl (SyntaxError msg)"
  shows "decode_stage E s w rq respObj data =
           Done (WriteRespose E s w
                  (respObj\<lparr>Error := Some \<lparr>Code = ParseErrorCode E,
                      Message = ParseErrorMessage E, Data = msg\<rparr>\<rparr>)) []"
  using assms by (simp add: decode_stage_def Let_def)

lemma decode_stage_type_error:
  assumes "Unmarshal E data = Inl (UnmarshalTypeError val fld)"
  shows "decode_stage E s w rq respObj data =
           Done (WriteRespose E s w
                  (respObj\<lparr>Error := Some
                     (if val = ''array'' then
                        \<lparr>Code = NotImplementedCode E, Message = NotImplementedMessage E,
                         Data = ''batch requests not supported''\<rparr>
                      else if fld = ''method'' then
                        \<lparr>Code = InvalidMethodCode E, Message = InvalidMethodMessage E,
                         Data = ''method data type must be string''\<rparr>
                      else
                        \<lparr>Code = ParseErrorCode E, Message = ParseErrorMessage E,
                         Data = type_error_text E val fld\<rparr>)\<rparr>)) []"
  using assms by (simp add: decode_stage_def Let_def)

lemma dispatch_call_error:
  assumes "req_Jsonrpc reqObj = ''2.0''"
    and "ConvertIDtoString E (req_ID reqObj) = (x, None)"
    and "Call s (req_Method reqObj)
           \<lparr>p_id = req_ID reqObj, p_method = req_Method reqObj,
            p_params = req_Params reqObj, p_r = rq\<rparr> = (res, Some errObj)"
  shows "dispatch E s w rq respObj reqObj =
           Done (WriteRespose E s w
                  ((if req_ID reqObj \<noteq> None then respObj\<lparr>ID := req_ID reqObj\<rparr>
                    else respObj\<lparr>notification := True\<rparr>)
                     \<lparr>Result := res, Error := Some errObj\<rparr>))
             [(req_Method reqObj,
               \<lparr>p_id = req_ID reqObj, p_method = req_Method reqObj,
                p_params = req_Params reqObj, p_r = rq\<rparr>)]"
  using assms by (simp add: dispatch_def ValidateJSONRPCVersionNumber_def Let_def)

text \<open>
  C6, as amended. A request-hook failure does not go through WriteRespose: ServeHTTP
  writes the status of the hook error to the writer and returns, so neither the static
  nor the dynamic headers are set on that path. Every other failure is transmitted by
  WriteRespose, on the writer ServeHTTP was given and with the response object the
  pipeline has built up to that stage: the body read (status 400, parse error), each of
  the three transport validators (the object as the refusing validator leaves it), the
  decode (parse error, batch error or method error set on the object the validators
  left), the version check, the id coercion, and an error of the method registry. And
  whatever object WriteRespose is given, the header map it leaves is the writer's map
  overridden by the static headers, overridden by the dynamic headers of that object.
\<close>

theorem C6_transmission_except_request_hook:
  "(Body rq = Inl err \<longrightarrow>
      ServeHTTP E s w rq =
        Done (WriteRespose E s w
               ((DefaultResponseObject E)\<lparr>r := Some rq, statusCode := 400,
                  Error := Some \<lparr>Code = ParseErrorCode E, Message = ParseErrorMessage E,
                                  Data = err\<rparr>\<rparr>)) []) \<and>
   (Body rq = Inr data \<and> req s rq data = Some e \<longrightarrow>
      ServeHTTP E s w rq = Done (WriteHeader w (getHTTPCodeFromHookError E e)) [] \<and>
      header (WriteHeader w (getHTTPCodeFromHookError E e)) = header w) \<and>
   (Body rq = Inr data \<and> req s rq data = None \<and>
    ValidateHTTPProtocolVersion E ((DefaultResponseObject E)\<lparr>r := Some rq\<rparr>) rq
      = (False, ra) \<longrightarrow>
      ServeHTTP E s w rq = Done (WriteRespose E s w ra) []) \<and>
   (Body rq = Inr data \<and> req s rq data = None \<and>
    ValidateHTTPProtocolVersion E ((DefaultResponseObject E)\<lparr>r := Some rq\<rparr>) rq
      = (True, ra) \<and>
    ValidateHTTPRequestMethod E ra rq = (False, rb) \<longrightarrow>
      ServeHTTP E s w rq = Done (WriteRespose E s w rb) []) \<and>
   (Body rq = Inr data \<and> req s rq data = None \<and>
    ValidateHTTPProtocolVersion E ((DefaultResponseObject E)\<lparr>r := Some rq\<rparr>) rq
      = (True, ra) \<and>
    ValidateHTTPRequestMethod E ra rq = (True, rb) \<and>
    ValidateHTTPRequestHeaders E rb rq = (False, rc) \<longrightarrow>
      ServeHTTP E s w rq = Done (WriteRespose E s w rc) []) \<and>
   (reaches_decode E s rq data respObj \<and> Unmarshal E data = Inl (SyntaxError msg) \<longrightarrow>
      ServeHTTP E s w rq =
        Done (WriteRespose E s w
               (respObj\<lparr>Error := Some \<lparr>Code = ParseErrorCode E,
                   Message = ParseErrorMessage E, Data = msg\<rparr>\<rparr>)) []) \<and>
   (reaches_decode E s rq data respObj \<and>
    Unmarshal E data = Inl (UnmarshalTypeError val fld) \<longrightarrow>
      ServeHTTP E s w rq =
        Done (WriteRespose E s w
               (respObj\<lparr>Error := Some
                  (if val = ''array'' then
                     \<lparr>Code = NotImplementedCode E, Message = NotImplementedMessage E,
                      Data = ''batch requests not supported''\<rparr>
                   else if fld = ''method'' then
                     \<lparr>Code = InvalidMethodCode E, Message = InvalidMethodMessage E,
                      Data = ''method data type must be string''\<rparr>
                   else
                     \<lparr>Code = ParseErrorCode E, Message = ParseErrorMessage E,
                      Data = type_error_text E val fld\<rparr>)\<rparr>)) []) \<and>
   (reaches_decode E s rq data respObj \<and> Unmarshal E data = Inr (Some reqObj) \<and>
    req_Jsonrpc reqObj \<noteq> ''2.0'' \<longrightarrow>
      ServeHTTP E s w rq =
        Done (WriteRespose E s w
               (respObj\<lparr>Error := Some \<lparr>Code = InvalidRequestCode E,
                   Message = InvalidRequestMessage E,
                   Data = InvalidVersionData E\<rparr>\<rparr>)) []) \<and>
   (reaches_decode E s rq data respObj \<and> Unmarshal E data = Inr (Some reqObj) \<and>
    req_Jsonrpc reqObj = ''2.0'' \<and>
    ConvertIDtoString E (req_ID reqObj) = (x, Some errObj) \<longrightarrow>
      ServeHTTP E s w rq = Done (WriteRespose E s w (respObj\<lparr>Error := Some errObj\<rparr>)) []) \<and>
   (reaches_decode E s rq data respObj \<and> Unmarshal E data = Inr (Some reqObj) \<and>
    req_Jsonrpc reqObj = ''2.0'' \<and>
    ConvertIDtoString E (req_ID reqObj) = (x, None) \<and>
    Call s (req_Method reqObj)
      \<lparr>p_id = req_ID reqObj, p_method = req_Method reqObj,
       p_params = req_Params reqObj, p_r = rq\<rparr> = (res, Some errObj) \<longrightarrow>
      ServeHTTP E s w rq =
        Done (WriteRespose E s w
               ((if req_ID reqObj \<noteq> None then respObj\<lparr>ID := req_ID reqObj\<rparr>
                 else respObj\<lparr>notification := True\<rparr>)
                  \<lparr>Result := res, Error := Some errObj\<rparr>))
          [(req_Method reqObj,
            \<lparr>p_id = req_ID reqObj, p_method = req_Method reqObj,
             p_params = req_Params reqObj, p_r = rq\<rparr>)]) \<and>
   header (WriteRespose E s w ro) =
     header w ++ map_of (rev (map (apfst (canon E)) (s_headers s)))
              ++ map_of (rev (map (apfst (canon E)) (headers ro)))"
proof -
  have dec: "ServeHTTP E s w rq = decode_stage E s w rq respObj data"
    if "reaches_decode E s rq data respObj"
    using that by (rule ServeHTTP_decode_stage)
  have c1: "Body rq = Inl err \<longrightarrow>
      ServeHTTP E s w rq =
        Done (WriteRespose E s w
               ((DefaultResponseObject E)\<lparr>r := Some rq, statusCode := 400,
                  Error := Some \<lparr>Code = ParseErrorCode E, Message = ParseErrorMessage E,
                                  Data = err\<rparr>\<rparr>)) []"
    using ServeHTTP_read_error [of rq err E s w] by blast
  have c2: "Body rq = Inr data \<and> req s rq data = Some e \<longrightarrow>
      ServeHTTP E s w rq = Done (WriteHeader w (getHTTPCodeFromHookError E e)) [] \<and>
      header (WriteHeader w (getHTTPCodeFromHookError E e)) = header w"
    using ServeHTTP_request_hook [of rq data s e E w] by simp
  have c3: "Body rq = Inr data \<and> req s rq data = None \<and>
    ValidateHTTPProtocolVersion E ((DefaultResponseObject E)\<lparr>r := Some rq\<rparr>) rq
      = (False, ra) \<longrightarrow>
      ServeHTTP E s w rq = Done (WriteRespose E s w ra) []"
    using ServeHTTP_protocol_refused [of rq data s E ra w] by blast
  have c4: "Body rq = Inr data \<and> req s rq data = None \<and>
    ValidateHTTPProtocolVersion E ((DefaultResponseObject E)\<lparr>r := Some rq\<rparr>) rq
      = (True, ra) \<and>
    ValidateHTTPRequestMethod E ra rq = (False, rb) \<longrightarrow>
      ServeHTTP E s w rq = Done (WriteRespose E s w rb) []"
    using ServeHTTP_method_refused [of rq data s E ra rb w] by blast
  have c5: "Body rq = Inr data \<and> req s rq data = None \<and>
    ValidateHTTPProtocolVersion E ((DefaultResponseObject E)\<lparr>r := Some rq\<rparr>) rq
      = (True, ra) \<and>
    ValidateHTTPRequestMethod E ra rq = (True, rb) \<and>
    ValidateHTTPRequestHeaders E rb rq = (False, rc) \<longrightarrow>
      ServeHTTP E s w rq = Done (WriteRespose E s w rc) []"
    using ServeHTTP_headers_refused [of rq data s E ra rb rc w] by blast
  have c6: "reaches_decode E s rq data respObj \<and> Unmarshal E data = Inl (SyntaxError msg) \<longrightarrow>
      ServeHTTP E s w rq =
        Done (WriteRespose E s w
               (respObj\<lparr>Error := Some \<lparr>Code = ParseErrorCode E,
                   Message = ParseErrorMessage E, Data = msg\<rparr>\<rparr>)) []"
    using dec decode_stage_syntax [of E data msg s w rq respObj] by simp
  have c7: "reaches_decode E s rq data respObj \<and>
    Unmarshal E data = Inl (UnmarshalTypeError val fld) \<longrightarrow>
      ServeHTTP E s w rq =
        Done (WriteRespose E s w
               (respObj\<lparr>Error := Some
                  (if val = ''array'' then
                     \<lparr>Code = NotImplementedCode E, Message = NotImplementedMessage E,
                      Data = ''batch requests not supported''\<rparr>
                   else if fld = ''method'' then
                     \<lparr>Code = InvalidMethodCode E, Message = InvalidMethodMessage E,
                      Data = ''method data type must be string''\<rparr>
                   else
                     \<lparr>Code = ParseErrorCode E, Message = ParseErrorMessage E,
                      Data = type_error_text E val fld\<rparr>)\<rparr>)) []"
    using dec decode_stage_type_error [of E data val fld s w rq respObj] by simp
  have c8: "reaches_decode E s rq data respObj \<and> Unmarshal E data = Inr (Some reqObj) \<and>
    req_Jsonrpc reqObj \<noteq> ''2.0'' \<longrightarrow>
      ServeHTTP E s w rq =
        Done (WriteRespose E s w
               (respObj\<lparr>Error := Some \<lparr>Code = InvalidRequestCode E,
                   Message = InvalidRequestMessage E,
                   Data = InvalidVersionData E\<rparr>\<rparr>)) []"
    using dec decode_stage_decoded [of E data reqObj s w rq respObj]
      dispatch_version [of reqObj E s w rq respObj] by simp
  have c9: "reaches_decode E s rq data respObj \<and> Unmarshal E data = Inr (Some reqObj) \<and>
    req_Jsonrpc reqObj = ''2.0'' \<and>
    ConvertIDtoString E (req_ID reqObj) = (x, Some errObj) \<longrightarrow>
      ServeHTTP E s w rq = Done (WriteRespose E s w (respObj\<lparr>Error := Some errObj\<rparr>)) []"
    using dec decode_stage_decoded [of E data reqObj s w rq respObj]
      dispatch_id [of reqObj E x errObj s w rq respObj] by simp
  have c10: "reaches_decode E s rq data respObj \<and> Unmarshal E data = Inr (Some reqObj) \<and>
    req_Jsonrpc reqObj = ''2.0'' \<and>
    ConvertIDtoString E (req_ID reqObj) = (x, None) \<and>
    Call s (req_Method reqObj)
      \<lparr>p_id = req_ID reqObj, p_method = req_Method reqObj,
       p_params = req_Params reqObj, p_r = rq\<rparr> = (res, Some errObj) \<longrightarrow>
      ServeHTTP E s w rq =
        Done (WriteRespose E s w
               ((if req_ID reqObj \<noteq> None then respObj\<lparr>ID := req_ID reqObj\<rparr>
                 else respObj\<lparr>notification := True\<rparr>)
                  \<lparr>Result := res, Error := Some errObj\<rparr>))
          [(req_Method reqObj,
            \<lparr>p_id = req_ID reqObj, p_method = req_Method reqObj,
             p_params = req_Params reqObj, p_r = rq\<rparr>)]"
    using dec decode_stage_decoded [of E data reqObj s w rq respObj]
      dispatch_call_error [of reqObj E x s rq res errObj w respObj] by simp
  have c11: "header (WriteRespose E s w ro) =
     header w ++ map_of (rev (map (apfst (canon E)) (s_headers s)))
              ++ map_of (rev (map (apfst (canon E)) (headers ro)))"
    by (simp add: WriteRespose_header set_headers_map)
  show ?thesis
    by (intro conjI) (rule c1, rule c2, rule c3, rule c4, rule c5, rule c6, rule c7,
      rule c8, rule c9, rule c10, rule c11)
qed

theorem C6_transmission_witness:
  "ServeHTTP E0 s0 w0 unreadable =
     Done (WriteRespose E0 s0 w0
            ((DefaultResponseObject E0)\<lparr>r := Some unreadable, statusCode := 400,
               Error := Some \<lparr>Code = - 32700, Message = ''Parse error'',
                               Data = ''unexpected EOF''\<rparr>\<rparr>)) [] \<and>
   Unmarshal E0 body_null = Inr None \<and>
   ServeHTTP E0 s0 w0 get_null =
     Done (WriteRespose E0 s0 w0
            ((DefaultResponseObject E0)\<lparr>r := Some get_null, statusCode := 405,
               Error := Some \<lparr>Code = - 32600, Message = ''Invalid Request'',
                               Data = ''method must be POST''\<rparr>\<rparr>)) [] \<and>
   header (WriteRespose E0 s0 w0
            ((DefaultResponseObject E0)\<lparr>r := Some get_null, statusCode := 405,
               Error := Some \<lparr>Code = - 32600, Message = ''Invalid Request'',
                               Data = ''method must be POST''\<rparr>\<rparr>)) ''Server''
     = Some ''jrpc2'' \<and>
   ServeHTTP E0 s_refuse w0 get_null = Done (WriteHeader w0 403) []"
proof -
  let ?d = "(DefaultResponseObject E0)\<lparr>r := Some get_null\<rparr>"
  let ?d405 = "(DefaultResponseObject E0)\<lparr>r := Some get_null, statusCode := 405,
               Error := Some \<lparr>Code = - 32600, Message = ''Invalid Request'',
                               Data = ''method must be POST''\<rparr>\<rparr>"
  have b1: "Body unreadable = Inl ''unexpected EOF''"
    by (simp add: unreadable_def)
  have b2: "Body get_null = Inr body_null"
    by (simp add: get_null_def post_def)
  have h0: "req s0 get_null body_null = None"
    by (simp add: s0_def)
  have h1: "req s_refuse get_null body_null = Some 403"
    by (simp add: s_refuse_def)
  have v1: "ValidateHTTPProtocolVersion E0 ?d get_null = (True, ?d)"
    by (simp add: E0_def validate_proto0_def get_null_def post_def)
  have v2: "ValidateHTTPRequestMethod E0 ?d get_null = (False, ?d405)"
    by (simp add: E0_def validate_method0_def get_null_def post_def)
  have g: "getHTTPCodeFromHookError E0 403 = 403"
    by (simp add: E0_def)
  have hs: "headers ?d405 = [(''Content-Type'', ''application/json'')]"
    "s_headers s0 = [(''Server'', ''jrpc2''), (''Content-Type'', ''text/plain'')]"
    "header w0 = Map.empty" "canon E0 = (\<lambda>k. k)"
    by (simp_all add: DefaultResponseObject_def E0_def s0_def w0_def)
  have k1: "ServeHTTP E0 s0 w0 unreadable =
     Done (WriteRespose E0 s0 w0
            ((DefaultResponseObject E0)\<lparr>r := Some unreadable, statusCode := 400,
               Error := Some \<lparr>Code = - 32700, Message = ''Parse error'',
                               Data = ''unexpected EOF''\<rparr>\<rparr>)) []"
    using C6_transmission_except_request_hook
            [where E = E0 and s = s0 and w = w0 and rq = unreadable
               and err = "''unexpected EOF''", THEN conjunct1] b1
    by (simp add: E0_consts)
  have k2: "ServeHTTP E0 s_refuse w0 get_null = Done (WriteHeader w0 403) []"
    using C6_transmission_except_request_hook
            [where E = E0 and s = s_refuse and w = w0 and rq = get_null
               and data = body_null and e = 403, THEN conjunct2, THEN conjunct1] b2 h1
    by (simp add: g)
  have k4: "ServeHTTP E0 s0 w0 get_null = Done (WriteRespose E0 s0 w0 ?d405) []"
    using C6_transmission_except_request_hook
            [where E = E0 and s = s0 and w = w0 and rq = get_null
               and data = body_null and ra = ?d and rb = ?d405,
             THEN conjunct2, THEN conjunct2, THEN conjunct2, THEN conjunct1] b2 h0 v1 v2
    by blast
  have k11: "header (WriteRespose E0 s0 w0 ?d405) ''Server'' = Some ''jrpc2''"
    using C6_transmission_except_request_hook
            [where E = E0 and s = s0 and w = w0 and ro = ?d405,
             THEN conjunct2, THEN conjunct2, THEN conjunct2, THEN conjunct2, THEN conjunct2,
             THEN conjunct2, THEN conjunct2, THEN conjunct2, THEN conjunct2, THEN conjunct2]
    by (simp add: hs map_add_def)
  show ?thesis using k1 k2 k4 k11 Unmarshal_E0(5) by simp
qed

text \<open>
  The claim as stated fails on the request-hook path: with a static header \<open>Server\<close>
  configured and a request hook that refuses the request with 403, the writer ends with
  status 403 and without that header.
\<close>

theorem C6_request_hook_counterexample:
  "ServeHTTP E0 s_refuse w0 (post body_notify) = Done (w0\<lparr>status := Some 403\<rparr>) [] \<and>
   (''Server'', ''jrpc2'') \<in> set (s_headers s_refuse) \<and>
   header (w0\<lparr>status := Some 403\<rparr>) ''Server'' = None"
  by (simp add: ServeHTTP_def Let_def s_refuse_def s0_def post_def WriteHeader_def w0_def
        E0_def)

lemma decode_stage_method:
  assumes "Unmarshal E data = Inl (UnmarshalTypeError val ''method'')"
    and "val \<noteq> ''array''"
  shows "decode_stage E s w rq respObj data =
           Done (WriteRespose E s w
                  (respObj\<lparr>Error := Some \<lparr>Code = InvalidMethodCode E,
                      Message = InvalidMethodMessage E,
                      Data = ''method data type must be string''\<rparr>\<rparr>)) []"
  using assms by (simp add: decode_stage_def Let_def)

text \<open>
  C8, on the code. A method field that holds a number is answered with the
  \<open>InvalidMethodCode\<close> error, as the claim says; a method field that holds an array is a
  type error with Value "array" as well, so the batch branch, tested first, answers it
  with the \<open>NotImplementedCode\<close> error "batch requests not supported".
\<close>

theorem C8_method_array_answered_as_batch:
  "Unmarshal E0 body_method_number = Inl (UnmarshalTypeError ''number'' ''method'') \<and>
   ServeHTTP E0 s0 w0 (post body_method_number) =
     Done (WriteRespose E0 s0 w0
            ((DefaultResponseObject E0)\<lparr>r := Some (post body_method_number),
               Error := Some \<lparr>Code = InvalidMethodCode E0, Message = ''Invalid method'',
                               Data = ''method data type must be string''\<rparr>\<rparr>)) [] \<and>
   Unmarshal E0 body_method_array = Inl (UnmarshalTypeError ''array'' ''method'') \<and>
   ServeHTTP E0 s0 w0 (post body_method_array) =
     Done (WriteRespose E0 s0 w0
            ((DefaultResponseObject E0)\<lparr>r := Some (post body_method_array),
               Error := Some \<lparr>Code = NotImplementedCode E0, Message = ''Not implemented'',
                               Data = ''batch requests not supported''\<rparr>\<rparr>)) [] \<and>
   NotImplementedCode E0 \<noteq> InvalidMethodCode E0"
proof -
  have n: "ServeHTTP E0 s0 w0 (post body_method_number) =
     Done (WriteRespose E0 s0 w0
            ((DefaultResponseObject E0)\<lparr>r := Some (post body_method_number),
               Error := Some \<lparr>Code = InvalidMethodCode E0, Message = ''Invalid method'',
                               Data = ''method data type must be string''\<rparr>\<rparr>)) []"
    using ServeHTTP_decode_stage [OF E0_reaches_decode [of body_method_number], of w0]
      decode_stage_method [OF Unmarshal_E0(3), of s0 w0]
    by (simp add: E0_consts(6))
  have a: "ServeHTTP E0 s0 w0 (post body_method_array) =
     Done (WriteRespose E0 s0 w0
            ((DefaultResponseObject E0)\<lparr>r := Some (post body_method_array),
               Error := Some \<lparr>Code = NotImplementedCode E0, Message = ''Not implemented'',
                               Data = ''batch requests not supported''\<rparr>\<rparr>)) []"
    using ServeHTTP_decode_stage [OF E0_reaches_decode [of body_method_array], of w0]
      decode_stage_array [OF Unmarshal_E0(2), of s0 w0]
    by (simp add: E0_consts(4))
  show ?thesis using n a Unmarshal_E0(2) Unmarshal_E0(3) by (simp add: E0_consts)
qed

text \<open>
  C9, as amended. When the id coercion rejects the id of a decoded request (the version
  being "2.0"), ServeHTTP transmits the response object with the coercion error set and
  nothing else changed: the id of the response object is the one it had before the
  request was decoded (none, for the default response object) and not the id of the
  request, the notification flag is not set, and the method registry is not called.
\<close>

theorem C9_invalid_id_response:
  assumes "reaches_decode E s rq data respObj"
    and "Unmarshal E data = Inr (Some reqObj)"
    and "req_Jsonrpc reqObj = ''2.0''"
    and "ConvertIDtoString E (req_ID reqObj) = (x, Some errObj)"
  shows "ServeHTTP E s w rq = Done (WriteRespose E s w (respObj\<lparr>Error := Some errObj\<rparr>)) [] \<and>
         ID (respObj\<lparr>Error := Some errObj\<rparr>) = ID respObj \<and>
         notification (respObj\<lparr>Error := Some errObj\<rparr>) = notification respObj"
proof -
  have "ServeHTTP E s w rq = decode_stage E s w rq respObj data"
    using assms(1) by (rule ServeHTTP_decode_stage)
  then show ?thesis
    using decode_stage_decoded [OF assms(2)] dispatch_id [OF assms(3) assms(4)] by simp
qed

theorem C9_invalid_id_witness:
  "ServeHTTP E0 s0 w0 (post body_bool_id) =
     Done (WriteRespose E0 s0 w0
            ((DefaultResponseObject E0)\<lparr>r := Some (post body_bool_id),
               Error := Some \<lparr>Code = - 32600, Message = ''Invalid Request'',
                               Data = ''unsupported id type''\<rparr>\<rparr>)) [] \<and>
   ID ((DefaultResponseObject E0)\<lparr>r := Some (post body_bool_id),
               Error := Some \<lparr>Code = - 32600, Message = ''Invalid Request'',
                               Data = ''unsupported id type''\<rparr>\<rparr>) = None"
proof -
  have v: "req_Jsonrpc \<lparr>req_Jsonrpc = ''2.0'', req_Method = ''echo'', req_Params = None,
                         req_ID = Some (JBool True)\<rparr> = ''2.0''"
    by simp
  have c: "ConvertIDtoString E0
             (req_ID \<lparr>req_Jsonrpc = ''2.0'', req_Method = ''echo'', req_Params = None,
                       req_ID = Some (JBool True)\<rparr>) =
           ([], Some \<lparr>Code = - 32600, Message = ''Invalid Request'',
                       Data = ''unsupported id type''\<rparr>)"
    by (simp add: E0_consts)
  show ?thesis
    using C9_invalid_id_response [OF E0_reaches_decode Unmarshal_E0(4) v c, of w0]
    by (simp add: default0)
qed

text \<open>
  The claim as stated fails when the best-known id is the id the request carries: the
  request with id \<open>true\<close> is answered with a response object whose id is none, its
  status 200 and its body written.
\<close>

theorem C9_request_id_not_carried_counterexample:
  "Unmarshal E0 body_bool_id =
     Inr (Some \<lparr>req_Jsonrpc = ''2.0'', req_Method = ''echo'', req_Params = None,
                 req_ID = Some (JBool True)\<rparr>) \<and>
   ServeHTTP E0 s0 w0 (post body_bool_id) =
     Done (WriteRespose E0 s0 w0
            ((DefaultResponseObject E0)\<lparr>r := Some (post body_bool_id),
               Error := Some \<lparr>Code = - 32600, Message = ''Invalid Request'',
                               Data = ''unsupported id type''\<rparr>\<rparr>)) [] \<and>
   ID ((DefaultResponseObject E0)\<lparr>r := Some (post body_bool_id),
               Error := Some \<lparr>Code = - 32600, Message = ''Invalid Request'',
                               Data = ''unsupported id type''\<rparr>\<rparr>) \<noteq> Some (JBool True) \<and>
   status (WriteRespose E0 s0 w0
            ((DefaultResponseObject E0)\<lparr>r := Some (post body_bool_id),
               Error := Some \<lparr>Code = - 32600, Message = ''Invalid Request'',
                               Data = ''unsupported id type''\<rparr>\<rparr>)) = Some 200"
proof -
  let ?ro = "(DefaultResponseObject E0)\<lparr>r := Some (post body_bool_id),
               Error := Some \<lparr>Code = - 32600, Message = ''Invalid Request'',
                               Data = ''unsupported id type''\<rparr>\<rparr>"
  have d: "dispatch E0 s0 w0 (post body_bool_id)
             ((DefaultResponseObject E0)\<lparr>r := Some (post body_bool_id)\<rparr>)
             \<lparr>req_Jsonrpc = ''2.0'', req_Method = ''echo'', req_Params = None,
               req_ID = Some (JBool True)\<rparr> = Done (WriteRespose E0 s0 w0 ?ro) []"
    by (simp add: dispatch_def ValidateJSONRPCVersionNumber_def E0_consts)
  have s: "ServeHTTP E0 s0 w0 (post body_bool_id) = Done (WriteRespose E0 s0 w0 ?ro) []"
    using ServeHTTP_decode_stage [OF E0_reaches_decode [of body_bool_id], of w0]
      decode_stage_decoded [OF Unmarshal_E0(4), of s0 w0] d
    by simp
  have st: "status (WriteRespose E0 s0 w0 ?ro) = Some 200"
    using WriteRespose_sent [of ?ro s0 E0 w0]
    by (simp add: default0 s0_hooks w0_fresh)
  show ?thesis using s st Unmarshal_E0(4) by (simp add: default0)
qed

end
